theory Spec2Isabelle
  imports Complex_Main "HOL-Library.Log_Nat"
begin

section \<open>JavaScript strings\<close>

text \<open>
  A JavaScript string is a sequence of UTF-16 code units; here it is a \<open>string\<close>, one
  \<open>char\<close> per code unit. Every operation below (\<open>includes\<close>, \<open>replace\<close>, \<open>split\<close>,
  \<open>join\<close>, \<open>padEnd\<close>) only compares and copies code units.
\<close>

definition is_prefix :: "string \<Rightarrow> string \<Rightarrow> bool" where
  "is_prefix p s = (take (length p) s = p)"

text \<open>\<open>String.prototype.includes(searchString)\<close>: some position of \<open>s\<close> starts with \<open>p\<close>.\<close>

fun includes_str :: "string \<Rightarrow> string \<Rightarrow> bool" where
  "includes_str [] p = (p = [])"
| "includes_str (x # xs) p = (is_prefix p (x # xs) \<or> includes_str xs p)"

text \<open>
  \<open>GetSubstitution\<close> of ECMAScript for a string pattern (no captures): in the replacement
  text \<open>$$\<close> stands for \<open>$\<close>, \<open>$&\<close> for the matched text, \<open>$`\<close> for the part of the
  string before the match and \<open>$'\<close> for the part after it; every other character,
  also a \<open>$\<close> followed by anything else, is copied.
\<close>

fun GetSubstitution :: "string \<Rightarrow> string \<Rightarrow> string \<Rightarrow> string \<Rightarrow> string" where
  "GetSubstitution matched front back [] = []"
| "GetSubstitution matched front back [x] = [x]"
| "GetSubstitution matched front back (x # y # r) =
     (if x = CHR ''$'' then
        (if y = CHR ''$'' then CHR ''$'' # GetSubstitution matched front back r
         else if y = CHR ''&'' then matched @ GetSubstitution matched front back r
         else if y = CHR 0x60 then front @ GetSubstitution matched front back r
         else if y = CHR 0x27 then back @ GetSubstitution matched front back r
         else x # GetSubstitution matched front back (y # r))
      else x # GetSubstitution matched front back (y # r))"

text \<open>
  \<open>String.prototype.replace(pattern, replacement)\<close> with a string pattern: only the first
  occurrence of the pattern is replaced, and a string without the pattern is returned
  as it is. \<open>replace_from front s\<close> scans \<open>s\<close>, with \<open>front\<close> the part already passed.
\<close>

fun replace_from :: "string \<Rightarrow> string \<Rightarrow> string \<Rightarrow> string \<Rightarrow> string" where
  "replace_from front [] pat rep =
     (if pat = [] then front @ GetSubstitution pat front [] rep else front)"
| "replace_from front (x # xs) pat rep =
     (if is_prefix pat (x # xs)
      then front @ GetSubstitution pat front (drop (length pat) (x # xs)) rep
             @ drop (length pat) (x # xs)
      else replace_from (front @ [x]) xs pat rep)"

definition replace_str :: "string \<Rightarrow> string \<Rightarrow> string \<Rightarrow> string" where
  "replace_str s pat rep = replace_from [] s pat rep"

text \<open>
  \<open>String.prototype.split(separator)\<close> with a string separator. With the empty separator
  the string falls into its code units (and the empty string into no piece at all).
\<close>

fun split_from :: "string \<Rightarrow> string \<Rightarrow> string \<Rightarrow> string list" where
  "split_from sep cur [] = [cur]"
| "split_from sep cur (x # xs) =
     (if is_prefix sep (x # xs) then cur # split_from sep [] (drop (length sep - 1) xs)
      else split_from sep (cur @ [x]) xs)"

definition split_str :: "string \<Rightarrow> string \<Rightarrow> string list" where
  "split_str s sep = (if sep = [] then map (\<lambda>c. [c]) s else split_from sep [] s)"

text \<open>\<open>Array.prototype.join(separator)\<close> on an array of strings.\<close>

fun join_str :: "string list \<Rightarrow> string \<Rightarrow> string" where
  "join_str [] sep = []"
| "join_str [p] sep = p"
| "join_str (p # q # ps) sep = p @ sep @ join_str (q # ps) sep"

text \<open>
  \<open>String.prototype.padEnd(targetLength, padString)\<close>: the pad string is repeated and cut
  to fill the string up to the target length; an empty pad string fills nothing.
\<close>

definition padEnd :: "string \<Rightarrow> nat \<Rightarrow> string \<Rightarrow> string" where
  "padEnd s n pad =
     (if n \<le> length s \<or> pad = [] then s
      else s @ take (n - length s) (concat (replicate (n - length s) pad)))"

text \<open>
  Reading \<open>xs[i]\<close> where a string is expected: an index out of range reads \<open>undefined\<close>,
  which a template literal or \<open>replace\<close> turns into the text \<open>undefined\<close>.
\<close>

definition index_text :: "string list \<Rightarrow> nat \<Rightarrow> string" where
  "index_text xs i = (if i < length xs then xs ! i else ''undefined'')"

text \<open>The decimal digits of a natural number, as \<open>Number::toString\<close> prints an integer.\<close>

definition digit_char :: "nat \<Rightarrow> char" where
  "digit_char d =
     (if d = 0 then CHR ''0'' else if d = 1 then CHR ''1'' else if d = 2 then CHR ''2''
      else if d = 3 then CHR ''3'' else if d = 4 then CHR ''4'' else if d = 5 then CHR ''5''
      else if d = 6 then CHR ''6'' else if d = 7 then CHR ''7'' else if d = 8 then CHR ''8''
      else CHR ''9'')"

fun decimal :: "nat \<Rightarrow> string" where
  "decimal n = (if n < 10 then [digit_char n] else decimal (n div 10) @ [digit_char (n mod 10)])"

declare decimal.simps [simp del]

section \<open>JavaScript numbers\<close>

text \<open>
  A finite JavaScript number is an IEEE 754 double; it is modelled by the rational number
  that it denotes. \<open>to_double x\<close> is the double nearest to the rational \<open>x\<close> (53
  significant bits, ties to the even significand), which is the result that every
  arithmetic operation of the language delivers. Overflow to \<open>Infinity\<close> and the
  subnormal range are left out: the numbers here are file sizes in bytes and their
  quotients by powers of 1000.
\<close>

definition pow2 :: "int \<Rightarrow> rat" where
  "pow2 e = (if 0 \<le> e then 2 ^ nat e else 1 / 2 ^ nat (- e))"

text \<open>The exponent \<open>e\<close> with \<open>2\<^sup>e \<le> x < 2\<^sup>e\<^sup>+\<^sup>1\<close>, for \<open>0 < x\<close>.\<close>

definition ilog2 :: "rat \<Rightarrow> int" where
  "ilog2 x =
     (let d = bitlen (fst (quotient_of x)) - bitlen (snd (quotient_of x))
      in if pow2 d \<le> x then d else d - 1)"

definition round_ties_even :: "rat \<Rightarrow> int" where
  "round_ties_even y =
     (let f = \<lfloor>y\<rfloor>; r = y - of_int f
      in if r < 1 / 2 then f else if 1 / 2 < r then f + 1 else if even f then f else f + 1)"

definition to_double :: "rat \<Rightarrow> rat" where
  "to_double x =
     (if x = 0 then 0
      else (let p = ilog2 \<bar>x\<bar> - 52
            in sgn x * of_int (round_ties_even (\<bar>x\<bar> / pow2 p)) * pow2 p))"

text \<open>
  \<open>Number.prototype.toFixed(2)\<close> for a number of magnitude below \<open>10\<^sup>2\<^sup>1\<close>: the integer
  \<open>n\<close> for which \<open>n / 100\<close> is nearest to the magnitude (the larger one of two), printed
  in decimal with at least three digits and a point before the last two, after the sign
  of a negative number. The numbers that reach it here are at most 1000
  (\<open>file_size_text_large\<close>).
\<close>

definition toFixed2 :: "rat \<Rightarrow> string" where
  "toFixed2 x =
     (let n = nat \<lfloor>\<bar>x\<bar> * 100 + 1 / 2\<rfloor>;
          m = decimal n;
          m = replicate (3 - length m) CHR ''0'' @ m;
          k = length m
      in (if x < 0 then ''-'' else []) @ take (k - 2) m @ ''.'' @ drop (k - 2) m)"

subsection \<open>The nearest double is at most twice the number\<close>

lemma pow2_powi: "pow2 e = 2 powi e"
  by (simp add: pow2_def power_int_def field_simps)

lemma pow2_pos: "0 < pow2 e"
  by (simp add: pow2_powi)

lemma pow2_add: "pow2 (a + b) = pow2 a * pow2 b"
  by (simp add: pow2_powi power_int_add)

lemma pow2_Suc: "pow2 (e + 1) = 2 * pow2 e"
  by (simp add: pow2_powi power_int_add)

lemma pow2_diff: "pow2 (a - b) = pow2 a / pow2 b"
  by (simp add: pow2_powi power_int_diff)

lemma bitlen_rat_bounds:
  assumes "0 < a"
  shows "pow2 (bitlen a - 1) \<le> of_int a" and "of_int a < pow2 (bitlen a)"
proof -
  from bitlen_bounds [OF assms]
  have lo: "2 ^ nat (bitlen a - 1) \<le> a" and hi: "a < 2 ^ nat (bitlen a)" by simp_all
  have ge1: "1 \<le> bitlen a" using assms by (simp add: bitlen_alt_def)
  have "(of_int (2 ^ nat (bitlen a - 1)) :: rat) \<le> of_int a" using lo by (simp only: of_int_le_iff)
  then show "pow2 (bitlen a - 1) \<le> of_int a" using ge1 by (simp add: pow2_def)
  have "(of_int a :: rat) < of_int (2 ^ nat (bitlen a))" using hi by (simp only: of_int_less_iff)
  then show "of_int a < pow2 (bitlen a)" using ge1 by (simp add: pow2_def)
qed

lemma ilog2_bounds:
  assumes "0 < x"
  shows "pow2 (ilog2 x) \<le> x \<and> x < pow2 (ilog2 x + 1)"
proof -
  obtain a b where q: "quotient_of x = (a, b)" by (cases "quotient_of x")
  have b: "0 < b" using q by (rule quotient_of_denom_pos)
  have x: "x = of_int a / of_int b" using q by (rule quotient_of_div)
  have a: "0 < a" using assms b x by (simp add: zero_less_divide_iff)
  define d where "d = bitlen a - bitlen b"
  note A = bitlen_rat_bounds [OF a] and B = bitlen_rat_bounds [OF b]
  have bpos: "(0::rat) < of_int b" using b by simp
  have "x < pow2 (bitlen a) / pow2 (bitlen b - 1)"
    unfolding x using A(2) B(1) a pow2_pos [of "bitlen b - 1"]
    by (intro frac_less) simp_all
  also have "\<dots> = pow2 (bitlen a - (bitlen b - 1))"
    by (simp only: pow2_diff)
  also have "bitlen a - (bitlen b - 1) = d + 1"
    by (simp add: d_def)
  finally have hi: "x < pow2 (d + 1)" .
  have "pow2 (bitlen a - 1) / pow2 (bitlen b) < x"
    unfolding x using A(1) B(2) bpos pow2_pos [of "bitlen a - 1"]
    by (intro frac_less2) simp_all
  moreover have "pow2 (bitlen a - 1) / pow2 (bitlen b) = pow2 (bitlen a - 1 - bitlen b)"
    by (simp only: pow2_diff)
  moreover have "bitlen a - 1 - bitlen b = d - 1"
    by (simp add: d_def)
  ultimately have lo: "pow2 (d - 1) < x" by simp
  show ?thesis
  proof (cases "pow2 d \<le> x")
    case True
    then have "ilog2 x = d" by (simp add: ilog2_def q d_def Let_def)
    then show ?thesis using True hi by simp
  next
    case False
    then have "ilog2 x = d - 1" by (simp add: ilog2_def q d_def Let_def)
    then show ?thesis using False lo by simp
  qed
qed


lemma round_ties_even_le: "round_ties_even y \<le> \<lfloor>y\<rfloor> + 1"
  by (simp add: round_ties_even_def Let_def)

lemma round_ties_even_ge: "\<lfloor>y\<rfloor> \<le> round_ties_even y"
  by (simp add: round_ties_even_def Let_def)

lemma to_double_le:
  assumes "0 < x"
  shows "to_double x \<le> 2 * x"
proof -
  define p where "p = ilog2 x - 52"
  define y where "y = x / pow2 p"
  from ilog2_bounds [OF assms] have lo: "pow2 (ilog2 x) \<le> x" and hi: "x < pow2 (ilog2 x + 1)"
    by simp_all
  have split: "pow2 (ilog2 x + 1) = 2 ^ 53 * pow2 p"
    unfolding p_def by (simp add: pow2_powi power_int_diff power_int_add)
  have "y < 2 ^ 53"
    unfolding y_def using hi split pow2_pos [of p] by (simp add: pos_divide_less_eq)
  then have "\<lfloor>y\<rfloor> < 2 ^ 53" by (simp add: floor_less_iff)
  then have "round_ties_even y \<le> 2 ^ 53" using round_ties_even_le [of y] by linarith
  then have "(of_int (round_ties_even y) :: rat) \<le> of_int (2 ^ 53)" by (simp only: of_int_le_iff)
  then have "of_int (round_ties_even y) * pow2 p \<le> 2 ^ 53 * pow2 p"
    using pow2_pos [of p] by (simp add: mult_right_mono)
  also have "\<dots> = 2 * pow2 (ilog2 x)" using split by (simp add: pow2_Suc)
  also have "\<dots> \<le> 2 * x" using lo by simp
  finally show ?thesis using assms by (simp add: to_double_def p_def y_def Let_def)
qed

lemma to_double_nonneg: "0 \<le> x \<Longrightarrow> 0 \<le> to_double x"
proof (cases "x = 0")
  case True then show ?thesis by (simp add: to_double_def)
next
  case False
  assume "0 \<le> x"
  with False have x: "0 < x" by simp
  have "0 \<le> x / pow2 (ilog2 x - 52)" using x pow2_pos [of "ilog2 x - 52"] by simp
  then have "0 \<le> \<lfloor>x / pow2 (ilog2 x - 52)\<rfloor>" by simp
  then have "0 \<le> round_ties_even (x / pow2 (ilog2 x - 52))"
    using round_ties_even_ge [of "x / pow2 (ilog2 x - 52)"] by linarith
  then show ?thesis using x pow2_pos [of "ilog2 x - 52"]
    by (simp add: to_double_def Let_def)
qed

subsection \<open>The scaling loop of the file size\<close>

text \<open>
  Lines 163 to 166, \<open>while (size > 1000) { currentDivision++; size /= 1000; }\<close>, on the
  number \<open>sz\<close> and the counter: every quotient is rounded to a double. The loop ends
  because a quotient by 1000, even rounded, is less than the number by more than 1.
\<close>

function scale :: "rat \<Rightarrow> nat \<Rightarrow> rat \<times> nat" where
  "scale sz currentDivision =
     (if 1000 < sz then scale (to_double (sz / 1000)) (currentDivision + 1)
      else (sz, currentDivision))"
  by pat_completeness auto

termination
proof (relation "measure (\<lambda>(sz, currentDivision). nat \<lfloor>sz\<rfloor>)")
  show "wf (measure (\<lambda>(sz, currentDivision). nat \<lfloor>sz\<rfloor>))" by simp
next
  fix sz :: rat and currentDivision :: nat
  assume big: "1000 < sz"
  then have "to_double (sz / 1000) \<le> 2 * (sz / 1000)" by (intro to_double_le) simp
  also have "\<dots> < sz - 1" using big by simp
  finally have "to_double (sz / 1000) \<le> sz - 1" by simp
  then have "\<lfloor>to_double (sz / 1000)\<rfloor> \<le> \<lfloor>sz - 1\<rfloor>" by (rule floor_mono)
  then have "\<lfloor>to_double (sz / 1000)\<rfloor> < \<lfloor>sz\<rfloor>" by simp
  moreover have "0 < \<lfloor>sz\<rfloor>" using big by simp
  ultimately have "nat \<lfloor>to_double (sz / 1000)\<rfloor> < nat \<lfloor>sz\<rfloor>" by linarith
  then show "((to_double (sz / 1000), currentDivision + 1), (sz, currentDivision))
      \<in> measure (\<lambda>(sz, currentDivision). nat \<lfloor>sz\<rfloor>)"
    by simp
qed

declare scale.simps [simp del]

section \<open>The imported names and the host\<close>

text \<open>
  \<open>activity.ts\<close> imports its constants from \<open>./constants\<close>, its helpers from \<open>./util\<close>
  and three names from Node's \<open>path\<close>; none of these modules is part of the sources, so
  they are parameters of the model. \<open>REPLACE_KEYS\<close> and \<open>CONFIG_KEYS\<close> are enums: the
  members of \<open>REPLACE_KEYS\<close> are the placeholder tokens, strings (the code passes them to
  \<open>String.prototype.includes\<close>, which throws on a regular expression), and the members
  of \<open>CONFIG_KEYS\<close> index the configuration, whose values are strings.
\<close>

datatype REPLACE_KEYS =
    Empty | FileName | DirName | FullDirName | Workspace | WorkspaceFolder
  | WorkspaceAndFolder | LanguageLowerCase | LanguageTitleCase | LanguageUpperCase
  | TotalLines | CurrentLine | CurrentColumn | FileSize | AppName | GitRepoName | GitBranch

datatype CONFIG_KEYS =
    DetailsIdling | DetailsEditing | DetailsDebugging
  | LowerDetailsIdling | LowerDetailsEditing | LowerDetailsDebugging
  | LowerDetailsNoWorkspaceFound | LargeImageIdling | LargeImage | SmallImage

record TextDocument =
  fileName :: string
  uri :: string
  languageId :: string
  lineCount :: nat

record modules =
  REPLACE_KEY :: "REPLACE_KEYS \<Rightarrow> string"
  EMPTY :: string
  FILE_SIZES :: "string list"
  IDLE_IMAGE_KEY :: string
  DEBUG_IMAGE_KEY :: string
  VSCODE_IMAGE_KEY :: string
  VSCODE_INSIDERS_IMAGE_KEY :: string
  UNKNOWN_GIT_BRANCH :: string
  UNKNOWN_GIT_REPO_NAME :: string
  resolveFileIcon :: "TextDocument \<Rightarrow> string"
  toLower :: "string \<Rightarrow> string"
  toTitle :: "string \<Rightarrow> string"
  toUpper :: "string \<Rightarrow> string"
  basename :: "string \<Rightarrow> string"
  parse_dir :: "string \<Rightarrow> string"
  sep :: string

text \<open>
  The state of the editor that one call reads through the \<open>vscode\<close> API: a snapshot,
  the same at every read of the call. An optional value of the API (\<open>undefined\<close> or
  \<open>null\<close> when absent) is an \<open>option\<close>. \<open>fs_stat\<close> is \<open>workspace.fs.stat\<close>: the size in
  bytes, a whole number that the double holding it represents exactly, or \<open>None\<close> when
  the promise is rejected. \<open>git\<close> is what
  \<open>extensions.getExtension('vscode.git')?.exports.getAPI(1)\<close> delivers, \<open>None\<close> without the
  extension. \<open>now\<close> is the reading of \<open>Date.now()\<close>, a whole number of milliseconds, and
  \<open>toLocaleString\<close> prints a non-negative integer in the host's locale. A path of
  properties is one field: \<open>ui_selected\<close> is \<open>repo.ui.selected\<close>, \<open>state_HEAD\<close> and
  \<open>state_remotes\<close> are \<open>repo.state.HEAD\<close> and \<open>repo.state.remotes\<close>, \<open>branch_name\<close> is
  the \<open>name\<close> of a branch and \<open>workspace_name\<close> is \<open>workspace.name\<close>.
\<close>

record Position =
  line :: nat
  character :: nat

record Selection =
  active :: Position

record TextEditor =
  document :: TextDocument
  selection :: Selection

record WorkspaceFolder =
  name :: string

record Branch =
  branch_name :: "string option"

record Remote =
  fetchUrl :: "string option"

record Repository =
  ui_selected :: bool
  state_HEAD :: "Branch option"
  state_remotes :: "Remote list"

record GitAPI =
  repositories :: "Repository list"

record host =
  config :: "CONFIG_KEYS \<Rightarrow> string"
  appName :: string
  activeDebugSession :: bool
  activeTextEditor :: "TextEditor option"
  workspace_name :: "string option"
  getWorkspaceFolder :: "string \<Rightarrow> WorkspaceFolder option"
  asRelativePath :: "string \<Rightarrow> string"
  fs_stat :: "string \<Rightarrow> nat option"
  git :: "GitAPI option"
  now :: int
  toLocaleString :: "nat \<Rightarrow> string"

text \<open>
  What makes a call fail: a property read on \<open>undefined\<close> (a \<open>TypeError\<close>), or the
  rejected promise of \<open>workspace.fs.stat\<close>, which the code awaits without a handler.
\<close>

datatype error = TypeError | StatRejected

record ActivityPayload =
  details_text :: "string option"
  state :: "string option"
  startTimestamp :: "int option"
  largeImageKey :: "string option"
  largeImageText :: "string option"
  smallImageKey :: "string option"
  smallImageText :: "string option"
  partyId :: "string option"
  partySize :: "int option"
  partyMax :: "int option"
  matchSecret :: "string option"
  joinSecret :: "string option"
  spectateSecret :: "string option"
  instance_flag :: "bool option"

text \<open>
  The field \<open>details\<close> of the payload is \<open>details_text\<close> here, and \<open>instance\<close> is
  \<open>instance_flag\<close>: \<open>details\<close> is also the name of a function of the module.
  The payload \<open>{}\<close> is the default of the parameter \<open>previous\<close>.
\<close>

definition empty_payload :: ActivityPayload where
  "empty_payload =
     \<lparr>details_text = None, state = None, startTimestamp = None, largeImageKey = None,
      largeImageText = None, smallImageKey = None, smallImageText = None, partyId = None,
      partySize = None, partyMax = None, matchSecret = None, joinSecret = None,
      spectateSecret = None, instance_flag = None\<rparr>"

section \<open>fileDetails: the placeholders of the document, the file and git\<close>

text \<open>
  Line 145 calls \<open>document.toLocaleString()\<close> on the document object itself.
  \<open>TextDocument\<close> declares no such method, so the call reaches
  \<open>Object.prototype.toLocaleString\<close>, which returns \<open>this.toString()\<close>: the text
  \<open>[object Object]\<close>, whatever the document holds.
\<close>

definition document_toLocaleString :: "TextDocument \<Rightarrow> string" where
  "document_toLocaleString d = ''[object Object]''"

text \<open>
  Lines 157 to 172, after the \<open>stat\<close>: the text that stands for the file size.
  \<open>originalSize\<close> is the size in bytes that \<open>stat\<close> delivered.
\<close>

definition file_size_text :: "string list \<Rightarrow> nat \<Rightarrow> string" where
  "file_size_text sizes originalSize =
     (let (sz, currentDivision) =
            (if 1000 < originalSize then scale (to_double (of_nat originalSize / 1000)) 1
             else (of_nat originalSize, 0))
      in (if 1000 < originalSize then toFixed2 sz else decimal originalSize)
           @ index_text sizes currentDivision)"

text \<open>\<open>git.repositories.find((repo) => repo.ui.selected)\<close>\<close>

definition selected_repository :: "GitAPI \<Rightarrow> Repository option" where
  "selected_repository g = find ui_selected (repositories g)"

text \<open>Line 179: \<open>find(...)?.state.HEAD?.name ?? EMPTY\<close>.\<close>

definition git_branch_text :: "modules \<Rightarrow> GitAPI \<Rightarrow> string" where
  "git_branch_text m g =
     (case selected_repository g of
        None \<Rightarrow> EMPTY m
      | Some repo \<Rightarrow>
          (case state_HEAD repo of
             None \<Rightarrow> EMPTY m
           | Some head \<Rightarrow> (case branch_name head of None \<Rightarrow> EMPTY m | Some n \<Rightarrow> n)))"

text \<open>
  Lines 190 to 193:
  \<open>find(...)?.state.remotes[0].fetchUrl?.split('/')[1].replace('.git', '') ?? EMPTY\<close>.
  The two \<open>?.\<close> guard the repository and the URL only: \<open>remotes[0]\<close> of an empty
  list is \<open>undefined\<close> and reading \<open>fetchUrl\<close> from it throws, and so does \<open>replace\<close>
  on the missing second piece of a URL without \<open>/\<close>.
\<close>

definition git_repo_name_text :: "modules \<Rightarrow> GitAPI \<Rightarrow> error + string" where
  "git_repo_name_text m g =
     (case selected_repository g of
        None \<Rightarrow> Inr (EMPTY m)
      | Some repo \<Rightarrow>
          (case state_remotes repo of
             [] \<Rightarrow> Inl TypeError
           | remote # _ \<Rightarrow>
               (case fetchUrl remote of
                  None \<Rightarrow> Inr (EMPTY m)
                | Some url \<Rightarrow>
                    (let pieces = split_str url ''/''
                     in if 1 < length pieces then Inr (replace_str (pieces ! 1) ''.git'' [])
                        else Inl TypeError))))"

text \<open>
  \<open>git?.repositories.length\<close> as a condition: the API when the extension is there and lists
  a repository, \<open>None\<close> otherwise.
\<close>

definition git_with_repositories :: "host \<Rightarrow> GitAPI option" where
  "git_with_repositories h =
     (case git h of None \<Rightarrow> None | Some g \<Rightarrow> if repositories g = [] then None else Some g)"

text \<open>
  The six blocks of \<open>fileDetails\<close>, lines 144 to 198, in their order. Each one tests
  \<open>raw.includes(token)\<close> and then replaces the token in \<open>raw\<close>.
\<close>

definition replaceTotalLines :: "modules \<Rightarrow> TextDocument \<Rightarrow> string \<Rightarrow> string" where
  "replaceTotalLines m doc raw =
     (if includes_str raw (REPLACE_KEY m TotalLines)
      then replace_str raw (REPLACE_KEY m TotalLines) (document_toLocaleString doc)
      else raw)"

definition replaceCurrentLine :: "modules \<Rightarrow> host \<Rightarrow> Selection \<Rightarrow> string \<Rightarrow> string" where
  "replaceCurrentLine m h sel raw =
     (if includes_str raw (REPLACE_KEY m CurrentLine)
      then replace_str raw (REPLACE_KEY m CurrentLine) (toLocaleString h (line (active sel) + 1))
      else raw)"

definition replaceCurrentColumn :: "modules \<Rightarrow> host \<Rightarrow> Selection \<Rightarrow> string \<Rightarrow> string" where
  "replaceCurrentColumn m h sel raw =
     (if includes_str raw (REPLACE_KEY m CurrentColumn)
      then replace_str raw (REPLACE_KEY m CurrentColumn)
             (toLocaleString h (character (active sel) + 1))
      else raw)"

definition replaceFileSize :: "modules \<Rightarrow> host \<Rightarrow> TextDocument \<Rightarrow> string \<Rightarrow> error + string" where
  "replaceFileSize m h doc raw =
     (if includes_str raw (REPLACE_KEY m FileSize)
      then (case fs_stat h (uri doc) of
              None \<Rightarrow> Inl StatRejected
            | Some originalSize \<Rightarrow>
                Inr (replace_str raw (REPLACE_KEY m FileSize)
                       (file_size_text (FILE_SIZES m) originalSize)))
      else Inr raw)"

definition replaceGitBranch :: "modules \<Rightarrow> host \<Rightarrow> string \<Rightarrow> string" where
  "replaceGitBranch m h raw =
     (if includes_str raw (REPLACE_KEY m GitBranch)
      then (case git_with_repositories h of
              Some g \<Rightarrow> replace_str raw (REPLACE_KEY m GitBranch) (git_branch_text m g)
            | None \<Rightarrow> replace_str raw (REPLACE_KEY m GitBranch) (UNKNOWN_GIT_BRANCH m))
      else raw)"

definition replaceGitRepoName :: "modules \<Rightarrow> host \<Rightarrow> string \<Rightarrow> error + string" where
  "replaceGitRepoName m h raw =
     (if includes_str raw (REPLACE_KEY m GitRepoName)
      then (case git_with_repositories h of
              Some g \<Rightarrow>
                (case git_repo_name_text m g of
                   Inl e \<Rightarrow> Inl e
                 | Inr v \<Rightarrow> Inr (replace_str raw (REPLACE_KEY m GitRepoName) v))
            | None \<Rightarrow> Inr (replace_str raw (REPLACE_KEY m GitRepoName) (UNKNOWN_GIT_REPO_NAME m)))
      else Inr raw)"

definition fileDetails ::
  "modules \<Rightarrow> host \<Rightarrow> string \<Rightarrow> TextDocument \<Rightarrow> Selection \<Rightarrow> error + string" where
  "fileDetails m h raw0 doc sel =
     (let raw = replaceTotalLines m doc raw0;
          raw = replaceCurrentLine m h sel raw;
          raw = replaceCurrentColumn m h sel raw
      in case replaceFileSize m h doc raw of
           Inl e \<Rightarrow> Inl e
         | Inr raw \<Rightarrow> replaceGitRepoName m h (replaceGitBranch m h raw))"

section \<open>details: the text of one field\<close>

text \<open>
  Lines 93 to 137. The three parameters are the configuration keys of the idle, the
  editing and the debugging template of the field. The calls of \<open>log\<close> only write to the
  output channel and are left out, here and in \<open>activity\<close>.
\<close>

definition details ::
  "modules \<Rightarrow> host \<Rightarrow> CONFIG_KEYS \<Rightarrow> CONFIG_KEYS \<Rightarrow> CONFIG_KEYS \<Rightarrow> error + string" where
  "details m h idling editing debugging =
     (let raw = replace_str (config h idling) (REPLACE_KEY m Empty) (EMPTY m)
      in case activeTextEditor h of
           None \<Rightarrow> Inr raw
         | Some editor \<Rightarrow>
             (let doc = document editor;
                  fileName' = basename m (fileName doc);
                  dir = parse_dir m (fileName doc);
                  pieces = split_str dir (sep m);
                  dirName = index_text pieces (length pieces - 1);
                  noWorkspaceFound =
                    replace_str (config h LowerDetailsNoWorkspaceFound) (REPLACE_KEY m Empty) (EMPTY m);
                  workspaceFolder = getWorkspaceFolder h (uri doc);
                  workspaceFolderName =
                    (case workspaceFolder of Some folder \<Rightarrow> name folder | None \<Rightarrow> noWorkspaceFound);
                  workspaceName =
                    (case workspace_name h of Some n \<Rightarrow> n | None \<Rightarrow> workspaceFolderName);
                  workspaceAndFolder =
                    workspaceName
                      @ (if workspaceFolderName = EMPTY m then [] else '' - '' @ workspaceFolderName);
                  fileIcon = resolveFileIcon m doc;
                  raw = (if activeDebugSession h then config h debugging else config h editing);
                  raw =
                    (case workspaceFolder of
                       None \<Rightarrow> raw
                     | Some folder \<Rightarrow>
                         (let relativePath = butlast (split_str (asRelativePath h (fileName doc)) (sep m))
                          in replace_str raw (REPLACE_KEY m FullDirName)
                               (name folder @ sep m @ join_str relativePath (sep m))))
              in case fileDetails m h raw doc (selection editor) of
                   Inl e \<Rightarrow> Inl e
                 | Inr raw \<Rightarrow>
                     Inr (replace_str
                           (replace_str
                             (replace_str
                               (replace_str
                                 (replace_str
                                   (replace_str
                                     (replace_str
                                       (replace_str raw (REPLACE_KEY m FileName) fileName')
                                       (REPLACE_KEY m DirName) dirName)
                                     (REPLACE_KEY m Workspace) workspaceName)
                                   (REPLACE_KEY m WorkspaceFolder) workspaceFolderName)
                                 (REPLACE_KEY m WorkspaceAndFolder) workspaceAndFolder)
                               (REPLACE_KEY m LanguageLowerCase) (toLower m fileIcon))
                             (REPLACE_KEY m LanguageTitleCase) (toTitle m fileIcon))
                           (REPLACE_KEY m LanguageUpperCase) (toUpper m fileIcon))))"

section \<open>activity: the payload\<close>

text \<open>
  Lines 37 to 91. \<open>previous_arg\<close> is the argument of the call, \<open>None\<close> when the caller
  passes none, and the parameter then defaults to \<open>{}\<close>. \<open>previous.startTimestamp ??
  Date.now()\<close> takes the clock when the field is \<open>undefined\<close> or \<open>null\<close>.
\<close>

definition activity :: "modules \<Rightarrow> host \<Rightarrow> ActivityPayload option \<Rightarrow> error + ActivityPayload" where
  "activity m h previous_arg =
     (let previous = (case previous_arg of None \<Rightarrow> empty_payload | Some p \<Rightarrow> p);
          defaultSmallImageKey =
            (if activeDebugSession h then DEBUG_IMAGE_KEY m
             else if includes_str (appName h) ''Insiders'' then VSCODE_INSIDERS_IMAGE_KEY m
             else VSCODE_IMAGE_KEY m)
      in case details m h DetailsIdling DetailsEditing DetailsDebugging of
           Inl e \<Rightarrow> Inl e
         | Inr d \<Rightarrow>
        (case details m h LowerDetailsIdling LowerDetailsEditing LowerDetailsDebugging of
           Inl e \<Rightarrow> Inl e
         | Inr s \<Rightarrow>
        (let payload =
               \<lparr>details_text = Some d,
                state = Some s,
                startTimestamp =
                  Some (case startTimestamp previous of Some t \<Rightarrow> t | None \<Rightarrow> now h),
                largeImageKey = Some (IDLE_IMAGE_KEY m),
                largeImageText = Some (config h LargeImageIdling),
                smallImageKey = Some defaultSmallImageKey,
                smallImageText =
                  Some (replace_str (config h SmallImage) (REPLACE_KEY m AppName) (appName h)),
                partyId = None, partySize = None, partyMax = None, matchSecret = None,
                joinSecret = None, spectateSecret = None, instance_flag = None\<rparr>
         in case activeTextEditor h of
              None \<Rightarrow> Inr payload
            | Some editor \<Rightarrow>
                if languageId (document editor) = ''Log'' then Inr payload
                else
                  (let imageKey = resolveFileIcon m (document editor);
                       imageText =
                         padEnd
                           (replace_str
                             (replace_str
                               (replace_str (config h LargeImage)
                                  (REPLACE_KEY m LanguageLowerCase) (toLower m imageKey))
                               (REPLACE_KEY m LanguageTitleCase) (toTitle m imageKey))
                             (REPLACE_KEY m LanguageUpperCase) (toUpper m imageKey))
                           2 (EMPTY m)
                   in case details m h DetailsIdling DetailsEditing DetailsDebugging of
                        Inl e \<Rightarrow> Inl e
                      | Inr d' \<Rightarrow>
                     (case details m h LowerDetailsIdling LowerDetailsEditing
                             LowerDetailsDebugging of
                        Inl e \<Rightarrow> Inl e
                      | Inr s' \<Rightarrow>
                          Inr (payload\<lparr>details_text := Some d', state := Some s',
                                 largeImageKey := Some imageKey,
                                 largeImageText := Some imageText\<rparr>))))))"

text \<open>The title and the subtitle of the outcome of a call: the fields \<open>details\<close> and \<open>state\<close>.\<close>

definition title_and_subtitle ::
  "error + ActivityPayload \<Rightarrow> error + string option \<times> string option" where
  "title_and_subtitle r = map_sum id (\<lambda>p. (details_text p, state p)) r"

section \<open>A sample of the imported names and of the host\<close>

text \<open>
  Modelled from the spec: the modules \<open>./constants\<close> and \<open>./util\<close> are not part of the
  sources. The spec names the placeholder tokens (total-lines, current-line,
  current-column, file-size, git-branch, git-repo-name, filename, dirname, workspace,
  workspace-folder, full-dir-name, the language name in three casings, the empty-value
  sentinel) and the \<open>unknown\<close> sentinels of git. The values below are one choice of
  them, used only to run the functions on concrete inputs; every general theorem holds
  for all values of the imported names.
\<close>

fun sample_keys :: "REPLACE_KEYS \<Rightarrow> string" where
  "sample_keys Empty = ''{empty}''"
| "sample_keys FileName = ''{file_name}''"
| "sample_keys DirName = ''{dir_name}''"
| "sample_keys FullDirName = ''{full_dir_name}''"
| "sample_keys Workspace = ''{workspace}''"
| "sample_keys WorkspaceFolder = ''{workspace_folder}''"
| "sample_keys WorkspaceAndFolder = ''{workspace_and_folder}''"
| "sample_keys LanguageLowerCase = ''{lang}''"
| "sample_keys LanguageTitleCase = ''{Lang}''"
| "sample_keys LanguageUpperCase = ''{LANG}''"
| "sample_keys TotalLines = ''{total_lines}''"
| "sample_keys CurrentLine = ''{current_line}''"
| "sample_keys CurrentColumn = ''{current_column}''"
| "sample_keys FileSize = ''{file_size}''"
| "sample_keys AppName = ''{app_name}''"
| "sample_keys GitRepoName = ''{git_repo_name}''"
| "sample_keys GitBranch = ''{git_branch}''"

definition sample_modules :: modules where
  "sample_modules =
     \<lparr>REPLACE_KEY = sample_keys,
      EMPTY = ''  '',
      FILE_SIZES = ['' bytes'', ''kb'', ''mb'', ''gb'', ''tb''],
      IDLE_IMAGE_KEY = ''vscode-big'',
      DEBUG_IMAGE_KEY = ''debug'',
      VSCODE_IMAGE_KEY = ''vscode'',
      VSCODE_INSIDERS_IMAGE_KEY = ''vscode-insiders'',
      UNKNOWN_GIT_BRANCH = ''Unknown'',
      UNKNOWN_GIT_REPO_NAME = ''Unknown'',
      resolveFileIcon = languageId,
      toLower = (\<lambda>s. s),
      toTitle = (\<lambda>s. s),
      toUpper = (\<lambda>s. s),
      basename = (\<lambda>p. last (split_str p ''/'')),
      parse_dir = (\<lambda>p. join_str (butlast (split_str p ''/'')) ''/''),
      sep = ''/''\<rparr>"

fun sample_config :: "CONFIG_KEYS \<Rightarrow> string" where
  "sample_config DetailsIdling = ''Idling''"
| "sample_config DetailsEditing = ''Editing {file_name}''"
| "sample_config DetailsDebugging = ''Debugging {file_name}''"
| "sample_config LowerDetailsIdling = ''Idle''"
| "sample_config LowerDetailsEditing = ''Workspace: {workspace}''"
| "sample_config LowerDetailsDebugging = ''Debugging: {workspace}''"
| "sample_config LowerDetailsNoWorkspaceFound = ''No workspace''"
| "sample_config LargeImageIdling = ''Idling''"
| "sample_config LargeImage = ''Editing a {LANG} file''"
| "sample_config SmallImage = ''{app_name}''"

definition sample_document :: TextDocument where
  "sample_document =
     \<lparr>fileName = ''/home/u/proj/src/main.ts'', uri = ''file:///home/u/proj/src/main.ts'',
      languageId = ''typescript'', lineCount = 42\<rparr>"

definition sample_selection :: Selection where
  "sample_selection = \<lparr>active = \<lparr>line = 6, character = 2\<rparr>\<rparr>"

definition sample_editor :: TextEditor where
  "sample_editor = \<lparr>document = sample_document, selection = sample_selection\<rparr>"

text \<open>
  An editor with a document open, no debug session, no workspace and no git extension;
  the clock reads 1000 and the locale prints plain decimal digits.
\<close>

definition sample_host :: host where
  "sample_host =
     \<lparr>config = sample_config,
      appName = ''Visual Studio Code'',
      activeDebugSession = False,
      activeTextEditor = Some sample_editor,
      workspace_name = None,
      getWorkspaceFolder = (\<lambda>u. None),
      asRelativePath = (\<lambda>p. p),
      fs_stat = (\<lambda>u. Some 1500000),
      git = None,
      now = 1000,
      toLocaleString = decimal\<rparr>"

definition sample_idle_host :: host where
  "sample_idle_host = sample_host\<lparr>activeTextEditor := None, activeDebugSession := True\<rparr>"

text \<open>The payload of the sample host.\<close>

definition sample_payload :: ActivityPayload where
  "sample_payload =
     \<lparr>details_text = Some ''Editing main.ts'', state = Some ''Workspace: No workspace'',
      startTimestamp = Some 1000, largeImageKey = Some ''typescript'',
      largeImageText = Some ''Editing a typescript file'', smallImageKey = Some ''vscode'',
      smallImageText = Some ''Visual Studio Code'', partyId = None, partySize = None,
      partyMax = None, matchSecret = None, joinSecret = None, spectateSecret = None,
      instance_flag = None\<rparr>"

text \<open>
  Variants of the sample host: a document whose language id is \<open>Log\<close>; a debug session;
  a git extension whose only repository is not selected; a git extension with a
  selected repository, and templates that ask for it; a document whose file \<open>stat\<close>
  does not find; a selected repository without remotes.
\<close>

definition sample_log_host :: host where
  "sample_log_host =
     sample_host\<lparr>activeTextEditor := Some (sample_editor\<lparr>document := sample_document\<lparr>languageId := ''Log''\<rparr>\<rparr>)\<rparr>"

definition sample_debug_host :: host where
  "sample_debug_host = sample_host\<lparr>activeDebugSession := True\<rparr>"

definition sample_unselected_git :: GitAPI where
  "sample_unselected_git =
     \<lparr>repositories =
        [\<lparr>ui_selected = False, state_HEAD = Some \<lparr>branch_name = Some ''main''\<rparr>,
          state_remotes = [\<lparr>fetchUrl = Some ''git@github.com:u/proj.git''\<rparr>]\<rparr>]\<rparr>"

definition sample_unselected_host :: host where
  "sample_unselected_host = sample_host\<lparr>git := Some sample_unselected_git\<rparr>"

definition sample_git :: GitAPI where
  "sample_git =
     \<lparr>repositories =
        [\<lparr>ui_selected = True, state_HEAD = Some \<lparr>branch_name = Some ''main''\<rparr>,
          state_remotes = [\<lparr>fetchUrl = Some ''git@github.com:u/proj.git''\<rparr>]\<rparr>]\<rparr>"

definition sample_git_host :: host where
  "sample_git_host =
     sample_host\<lparr>config :=
                   sample_config(LowerDetailsEditing := ''{git_repo_name} on {git_branch}, {file_size}''),
                 git := Some sample_git\<rparr>"

definition sample_unsaved_host :: host where
  "sample_unsaved_host =
     sample_host\<lparr>config := sample_config(DetailsEditing := ''{file_name} ({file_size})''),
                 fs_stat := (\<lambda>u. None)\<rparr>"

definition sample_no_remotes_git :: GitAPI where
  "sample_no_remotes_git =
     \<lparr>repositories = [\<lparr>ui_selected = True, state_HEAD = None, state_remotes = []\<rparr>]\<rparr>"

definition sample_no_remotes_host :: host where
  "sample_no_remotes_host =
     sample_host\<lparr>config := sample_config(LowerDetailsEditing := ''In {git_repo_name}''),
                 git := Some sample_no_remotes_git\<rparr>"

section \<open>Facts about the string operations\<close>

lemmas block_defs =
  replaceTotalLines_def replaceCurrentLine_def replaceCurrentColumn_def replaceFileSize_def
  replaceGitBranch_def replaceGitRepoName_def

lemmas sample_defs =
  sample_modules_def sample_host_def sample_editor_def sample_document_def sample_selection_def

lemmas str_defs = is_prefix_def replace_str_def split_str_def

lemma replace_from_absent:
  "\<not> includes_str s p \<Longrightarrow> replace_from front s p r = front @ s"
  by (induction s arbitrary: front) auto

lemma replace_str_absent: "\<not> includes_str s p \<Longrightarrow> replace_str s p r = s"
  by (simp add: replace_str_def replace_from_absent)

lemma replace_from_first:
  assumes "\<forall>i<length a. \<not> is_prefix p (drop i (a @ p @ b))"
  shows "replace_from front (a @ p @ b) p r = front @ a @ GetSubstitution p (front @ a) b r @ b"
  using assms
proof (induction a arbitrary: front)
  case Nil
  show ?case
  proof (cases "p @ b")
    case Nil
    then show ?thesis by simp
  next
    case (Cons x xs)
    have pre: "is_prefix p (x # xs)"
      unfolding Cons [symmetric] by (simp add: is_prefix_def)
    have rest: "drop (length p) (x # xs) = b"
      unfolding Cons [symmetric] by simp
    have "replace_from front (x # xs) p r = front @ GetSubstitution p front b r @ b"
      by (simp only: replace_from.simps pre rest if_True)
    then have "replace_from front (p @ b) p r = front @ GetSubstitution p front b r @ b"
      by (simp only: Cons)
    then show ?thesis by simp
  qed
next
  case (Cons x a)
  from Cons.prems have no: "\<not> is_prefix p ((x # a) @ p @ b)" by force
  have rest: "\<forall>i<length a. \<not> is_prefix p (drop i (a @ p @ b))"
  proof (intro allI impI)
    fix i assume "i < length a"
    then have "Suc i < length (x # a)" by simp
    with Cons.prems have "\<not> is_prefix p (drop (Suc i) ((x # a) @ p @ b))" by blast
    then show "\<not> is_prefix p (drop i (a @ p @ b))" by simp
  qed
  show ?case using no Cons.IH [OF rest, of "front @ [x]"] by simp
qed

lemma replace_str_first:
  "\<forall>i<length a. \<not> is_prefix p (drop i (a @ p @ b)) \<Longrightarrow>
   replace_str (a @ p @ b) p r = a @ GetSubstitution p a b r @ b"
  using replace_from_first [of a p b "[]" r] by (simp add: replace_str_def)

section \<open>The sample host, evaluated\<close>

lemma sample_details:
  "details sample_modules sample_host DetailsIdling DetailsEditing DetailsDebugging
     = Inr ''Editing main.ts''"
  by (simp add: details_def fileDetails_def block_defs sample_defs str_defs index_text_def)

lemma sample_lower_details:
  "details sample_modules sample_host LowerDetailsIdling LowerDetailsEditing LowerDetailsDebugging
     = Inr ''Workspace: No workspace''"
  by (simp add: details_def fileDetails_def block_defs sample_defs str_defs index_text_def)

lemma blocks_host_cong:
  assumes "toLocaleString h' = toLocaleString h" and "fs_stat h' = fs_stat h" and "git h' = git h"
  shows "replaceCurrentLine m h' = replaceCurrentLine m h"
    and "replaceCurrentColumn m h' = replaceCurrentColumn m h"
    and "replaceFileSize m h' = replaceFileSize m h"
    and "replaceGitBranch m h' = replaceGitBranch m h"
    and "replaceGitRepoName m h' = replaceGitRepoName m h"
  by (simp_all add: fun_eq_iff block_defs git_with_repositories_def assms)

lemma fileDetails_host_cong:
  assumes "toLocaleString h' = toLocaleString h" and "fs_stat h' = fs_stat h" and "git h' = git h"
  shows "fileDetails m h' raw doc sel = fileDetails m h raw doc sel"
  by (simp only: fileDetails_def blocks_host_cong [OF assms])

lemma fileDetails_now [simp]: "fileDetails m (h\<lparr>now := t\<rparr>) raw doc sel = fileDetails m h raw doc sel"
  by (rule fileDetails_host_cong) simp_all

lemma details_now [simp]: "details m (h\<lparr>now := t\<rparr>) i e d = details m h i e d"
  by (simp add: details_def cong: option.case_cong)

lemma sample_host_sel:
  "config sample_host = sample_config"
  "appName sample_host = ''Visual Studio Code''"
  "activeDebugSession sample_host = False"
  "activeTextEditor sample_host = Some sample_editor"
  "now sample_host = 1000"
  by (simp_all add: sample_host_def)

lemma sample_editor_sel:
  "document sample_editor = sample_document"
  "selection sample_editor = sample_selection"
  "languageId sample_document = ''typescript''"
  "uri sample_document = ''file:///home/u/proj/src/main.ts''"
  by (simp_all add: sample_editor_def sample_document_def)

lemma sample_modules_sel:
  "REPLACE_KEY sample_modules = sample_keys"
  "EMPTY sample_modules = ''  ''"
  "FILE_SIZES sample_modules = ['' bytes'', ''kb'', ''mb'', ''gb'', ''tb'']"
  "IDLE_IMAGE_KEY sample_modules = ''vscode-big''"
  "DEBUG_IMAGE_KEY sample_modules = ''debug''"
  "VSCODE_IMAGE_KEY sample_modules = ''vscode''"
  "VSCODE_INSIDERS_IMAGE_KEY sample_modules = ''vscode-insiders''"
  "UNKNOWN_GIT_BRANCH sample_modules = ''Unknown''"
  "UNKNOWN_GIT_REPO_NAME sample_modules = ''Unknown''"
  "resolveFileIcon sample_modules = languageId"
  "toLower sample_modules = (\<lambda>s. s)"
  "toTitle sample_modules = (\<lambda>s. s)"
  "toUpper sample_modules = (\<lambda>s. s)"
  "sep sample_modules = ''/''"
  by (simp_all add: sample_modules_def)

lemma sample_activity: "activity sample_modules sample_host None = Inr sample_payload"
  by (simp add: activity_def sample_details sample_lower_details sample_host_sel
        sample_editor_sel sample_modules_sel str_defs padEnd_def sample_payload_def
        empty_payload_def)

lemma sample_activity_again:
  "activity sample_modules (sample_host\<lparr>now := 2000\<rparr>) (Some sample_payload) = Inr sample_payload"
  by (simp add: activity_def sample_details sample_lower_details sample_host_sel
        sample_editor_sel sample_modules_sel str_defs padEnd_def sample_payload_def)

section \<open>The start time\<close>

text \<open>
  C1. When \<open>activity\<close> returns a payload, its \<open>startTimestamp\<close> is the one of the previous
  payload if a previous payload was passed and has one, and the reading of the clock at
  the call otherwise. Hence a call that is given the payload of an earlier call returns
  the start time of that payload: along a chain of calls the start time never goes back.
\<close>

theorem activity_startTimestamp:
  "(activity m h previous_arg = Inr p \<longrightarrow>
      startTimestamp p =
        Some (case previous_arg of
                None \<Rightarrow> now h
              | Some q \<Rightarrow> (case startTimestamp q of None \<Rightarrow> now h | Some t \<Rightarrow> t)))
   \<and> (activity m h previous_arg = Inr p \<and> activity m' h' (Some p) = Inr p' \<longrightarrow>
        startTimestamp p' = startTimestamp p)"
proof -
  have first: "startTimestamp q =
        Some (case arg of
                None \<Rightarrow> now g
              | Some q' \<Rightarrow> (case startTimestamp q' of None \<Rightarrow> now g | Some t \<Rightarrow> t))"
    if "activity n g arg = Inr q" for n g arg q
    using that
    by (auto simp add: activity_def Let_def empty_payload_def
          split: sum.splits option.splits if_splits)
  show ?thesis
  proof (intro conjI impI)
    assume "activity m h previous_arg = Inr p"
    then show "startTimestamp p =
        Some (case previous_arg of
                None \<Rightarrow> now h
              | Some q \<Rightarrow> (case startTimestamp q of None \<Rightarrow> now h | Some t \<Rightarrow> t))"
      by (rule first)
  next
    assume both: "activity m h previous_arg = Inr p \<and> activity m' h' (Some p) = Inr p'"
    then obtain t where "startTimestamp p = Some t" using first by blast
    moreover have "startTimestamp p' =
        Some (case startTimestamp p of None \<Rightarrow> now h' | Some t \<Rightarrow> t)"
      using first [of m' h' "Some p" p'] both by simp
    ultimately show "startTimestamp p' = startTimestamp p" by simp
  qed
qed

theorem activity_startTimestamp_witness:
  "activity sample_modules sample_host None = Inr sample_payload
   \<and> startTimestamp sample_payload = Some 1000
   \<and> activity sample_modules (sample_host\<lparr>now := 2000\<rparr>) (Some sample_payload)
       = Inr sample_payload"
proof -
  note inst = activity_startTimestamp [of sample_modules sample_host None sample_payload
      sample_modules "sample_host\<lparr>now := 2000\<rparr>" sample_payload]
  from inst sample_activity have "startTimestamp sample_payload = Some (now sample_host)"
    by simp
  then have "startTimestamp sample_payload = Some 1000"
    by (simp add: sample_host_def)
  then show ?thesis using sample_activity sample_activity_again by simp
qed

section \<open>Templates without tokens\<close>



section \<open>No document open\<close>

text \<open>
  C7. With no active text editor, \<open>activity\<close> returns a payload whose title and subtitle
  are the idle templates of the configuration, with the empty-value token filled in.
  Neither the debug session nor any other template is read.
\<close>

theorem activity_idle:
  assumes "activeTextEditor h = None"
  shows "\<exists>p. activity m h previous_arg = Inr p
           \<and> details_text p
               = Some (replace_str (config h DetailsIdling) (REPLACE_KEY m Empty) (EMPTY m))
           \<and> state p
               = Some (replace_str (config h LowerDetailsIdling) (REPLACE_KEY m Empty) (EMPTY m))"
  using assms by (simp add: activity_def details_def)

theorem activity_idle_witness:
  "activeTextEditor sample_idle_host = None
   \<and> activeDebugSession sample_idle_host
   \<and> (\<exists>p. activity sample_modules sample_idle_host None = Inr p
          \<and> details_text p = Some ''Idling'' \<and> state p = Some ''Idle'')"
  using activity_idle [of sample_idle_host sample_modules None]
  by (simp add: sample_idle_host_def sample_defs str_defs)

section \<open>Which template a field is made from\<close>

lemma details_debugging_key:
  "activeTextEditor h = Some editor \<Longrightarrow> activeDebugSession h \<Longrightarrow>
   details m h idling editing debugging = details m h debugging debugging debugging"
  by (simp add: details_def)

lemma details_editing_key:
  "activeTextEditor h = Some editor \<Longrightarrow> \<not> activeDebugSession h \<Longrightarrow>
   details m h idling editing debugging = details m h editing editing editing"
  by (simp add: details_def)

lemma fileDetails_config [simp]:
  "fileDetails m (h\<lparr>config := c\<rparr>) raw doc sel = fileDetails m h raw doc sel"
  by (rule fileDetails_host_cong) simp_all

lemma details_config:
  assumes "activeTextEditor h = Some editor" and "activeDebugSession h"
    and "c debugging = config h debugging"
    and "c LowerDetailsNoWorkspaceFound = config h LowerDetailsNoWorkspaceFound"
  shows "details m (h\<lparr>config := c\<rparr>) idling editing debugging
           = details m h idling editing debugging"
  using assms by (simp add: details_def cong: option.case_cong)

lemma activity_title_and_subtitle:
  "title_and_subtitle (activity m h previous_arg) =
     (case details m h DetailsIdling DetailsEditing DetailsDebugging of
        Inl e \<Rightarrow> Inl e
      | Inr d \<Rightarrow>
          (case details m h LowerDetailsIdling LowerDetailsEditing LowerDetailsDebugging of
             Inl e \<Rightarrow> Inl e
           | Inr s \<Rightarrow> Inr (Some d, Some s)))"
  by (simp add: activity_def title_and_subtitle_def Let_def split: sum.splits option.splits)

text \<open>
  C8. With a document open and a debug session running, the title and the subtitle of
  the payload are what \<open>details\<close> makes of the debugging templates alone: the outcome
  is the one of \<open>details\<close> with the debugging key in all three places, and it stays
  the same under every change of the configuration that keeps the two debugging
  templates and the no-workspace text, so whatever the editing and idle templates are.
\<close>

theorem activity_debugging:
  assumes "activeTextEditor h = Some editor" and "activeDebugSession h"
  shows "title_and_subtitle (activity m h previous_arg) =
           (case details m h DetailsDebugging DetailsDebugging DetailsDebugging of
              Inl e \<Rightarrow> Inl e
            | Inr d \<Rightarrow>
                (case details m h LowerDetailsDebugging LowerDetailsDebugging
                        LowerDetailsDebugging of
                   Inl e \<Rightarrow> Inl e
                 | Inr s \<Rightarrow> Inr (Some d, Some s)))
         \<and> (\<forall>c. c DetailsDebugging = config h DetailsDebugging
                \<and> c LowerDetailsDebugging = config h LowerDetailsDebugging
                \<and> c LowerDetailsNoWorkspaceFound = config h LowerDetailsNoWorkspaceFound
              \<longrightarrow> title_and_subtitle (activity m (h\<lparr>config := c\<rparr>) previous_arg)
                    = title_and_subtitle (activity m h previous_arg))"
proof (intro conjI allI impI)
  show "title_and_subtitle (activity m h previous_arg) =
           (case details m h DetailsDebugging DetailsDebugging DetailsDebugging of
              Inl e \<Rightarrow> Inl e
            | Inr d \<Rightarrow>
                (case details m h LowerDetailsDebugging LowerDetailsDebugging
                        LowerDetailsDebugging of
                   Inl e \<Rightarrow> Inl e
                 | Inr s \<Rightarrow> Inr (Some d, Some s)))"
    by (simp only: activity_title_and_subtitle
          details_debugging_key [OF assms, of m DetailsIdling DetailsEditing]
          details_debugging_key [OF assms, of m LowerDetailsIdling LowerDetailsEditing])
next
  fix c
  assume c: "c DetailsDebugging = config h DetailsDebugging
      \<and> c LowerDetailsDebugging = config h LowerDetailsDebugging
      \<and> c LowerDetailsNoWorkspaceFound = config h LowerDetailsNoWorkspaceFound"
  have "details m (h\<lparr>config := c\<rparr>) DetailsIdling DetailsEditing DetailsDebugging
          = details m h DetailsIdling DetailsEditing DetailsDebugging"
    using assms c by (intro details_config) simp_all
  moreover have "details m (h\<lparr>config := c\<rparr>) LowerDetailsIdling LowerDetailsEditing
          LowerDetailsDebugging
          = details m h LowerDetailsIdling LowerDetailsEditing LowerDetailsDebugging"
    using assms c by (intro details_config) simp_all
  ultimately show "title_and_subtitle (activity m (h\<lparr>config := c\<rparr>) previous_arg)
      = title_and_subtitle (activity m h previous_arg)"
    by (simp only: activity_title_and_subtitle)
qed


lemma sample_debug_details:
  "details sample_modules sample_debug_host DetailsDebugging DetailsDebugging DetailsDebugging
     = Inr ''Debugging main.ts''"
  "details sample_modules sample_debug_host LowerDetailsDebugging LowerDetailsDebugging
     LowerDetailsDebugging = Inr ''Debugging: No workspace''"
  by (simp_all add: sample_debug_host_def details_def fileDetails_def block_defs sample_defs
        str_defs index_text_def)

theorem activity_debugging_witness:
  "activeTextEditor sample_debug_host = Some sample_editor
   \<and> activeDebugSession sample_debug_host
   \<and> title_and_subtitle (activity sample_modules sample_debug_host None)
       = Inr (Some ''Debugging main.ts'', Some ''Debugging: No workspace'')
   \<and> title_and_subtitle
         (activity sample_modules
            (sample_debug_host\<lparr>config := sample_config(DetailsEditing := ''Writing code'')\<rparr>) None)
       = Inr (Some ''Debugging main.ts'', Some ''Debugging: No workspace'')"
proof -
  have ed: "activeTextEditor sample_debug_host = Some sample_editor"
    and dbg: "activeDebugSession sample_debug_host"
    and cfg: "config sample_debug_host = sample_config"
    by (simp_all add: sample_debug_host_def sample_host_def)
  note inst = activity_debugging [OF ed dbg, of sample_modules None]
  from inst have one: "title_and_subtitle (activity sample_modules sample_debug_host None)
       = Inr (Some ''Debugging main.ts'', Some ''Debugging: No workspace'')"
    by (simp add: sample_debug_details)
  from inst have "title_and_subtitle
         (activity sample_modules
            (sample_debug_host\<lparr>config := sample_config(DetailsEditing := ''Writing code'')\<rparr>) None)
       = title_and_subtitle (activity sample_modules sample_debug_host None)"
    by (simp add: cfg)
  with one ed dbg show ?thesis by simp
qed

text \<open>
  C10. With a document open whose language id is \<open>Log\<close>, \<open>activity\<close> returns the payload
  that it composed first: the large image key and text are the idle ones, no file icon
  is resolved, and the title and subtitle are what \<open>details\<close> makes of the debugging
  templates under a debug session and of the editing templates otherwise, never of the
  idle ones. The call fails exactly when one of the two calls of \<open>details\<close> fails.
\<close>

theorem activity_log:
  assumes "activeTextEditor h = Some editor" and "languageId (document editor) = ''Log''"
  shows "activity m h previous_arg =
     (case details m h
             (if activeDebugSession h then DetailsDebugging else DetailsEditing)
             (if activeDebugSession h then DetailsDebugging else DetailsEditing)
             (if activeDebugSession h then DetailsDebugging else DetailsEditing) of
        Inl e \<Rightarrow> Inl e
      | Inr d \<Rightarrow>
     (case details m h
             (if activeDebugSession h then LowerDetailsDebugging else LowerDetailsEditing)
             (if activeDebugSession h then LowerDetailsDebugging else LowerDetailsEditing)
             (if activeDebugSession h then LowerDetailsDebugging else LowerDetailsEditing) of
        Inl e \<Rightarrow> Inl e
      | Inr s \<Rightarrow>
          Inr \<lparr>details_text = Some d,
               state = Some s,
               startTimestamp =
                 Some (case previous_arg of
                         None \<Rightarrow> now h
                       | Some q \<Rightarrow> (case startTimestamp q of None \<Rightarrow> now h | Some t \<Rightarrow> t)),
               largeImageKey = Some (IDLE_IMAGE_KEY m),
               largeImageText = Some (config h LargeImageIdling),
               smallImageKey =
                 Some (if activeDebugSession h then DEBUG_IMAGE_KEY m
                       else if includes_str (appName h) ''Insiders''
                            then VSCODE_INSIDERS_IMAGE_KEY m
                       else VSCODE_IMAGE_KEY m),
               smallImageText =
                 Some (replace_str (config h SmallImage) (REPLACE_KEY m AppName) (appName h)),
               partyId = None, partySize = None, partyMax = None, matchSecret = None,
               joinSecret = None, spectateSecret = None, instance_flag = None\<rparr>))"
proof (cases "activeDebugSession h")
  case True
  note keys = details_debugging_key [OF assms(1) True, of m DetailsIdling DetailsEditing]
    details_debugging_key [OF assms(1) True, of m LowerDetailsIdling LowerDetailsEditing]
  show ?thesis
    using assms True
    by (simp add: activity_def keys empty_payload_def split: sum.splits option.splits)
next
  case False
  note keys =
    details_editing_key [OF assms(1) False, of m DetailsIdling DetailsEditing DetailsDebugging]
    details_editing_key [OF assms(1) False, of m LowerDetailsIdling LowerDetailsEditing
      LowerDetailsDebugging]
  show ?thesis
    using assms False
    by (simp add: activity_def keys empty_payload_def split: sum.splits option.splits)
qed

lemma sample_log_details:
  "details sample_modules sample_log_host DetailsEditing DetailsEditing DetailsEditing
     = Inr ''Editing main.ts''"
  "details sample_modules sample_log_host LowerDetailsEditing LowerDetailsEditing
     LowerDetailsEditing = Inr ''Workspace: No workspace''"
  by (simp_all add: sample_log_host_def details_def fileDetails_def block_defs sample_defs
        str_defs index_text_def)

theorem activity_log_witness:
  "activeTextEditor sample_log_host
     = Some (sample_editor\<lparr>document := sample_document\<lparr>languageId := ''Log''\<rparr>\<rparr>)
   \<and> languageId (document (sample_editor\<lparr>document := sample_document\<lparr>languageId := ''Log''\<rparr>\<rparr>))
       = ''Log''
   \<and> activity sample_modules sample_log_host None
       = Inr (sample_payload\<lparr>largeImageKey := Some ''vscode-big'',
                largeImageText := Some ''Idling''\<rparr>)"
proof -
  have ed: "activeTextEditor sample_log_host
     = Some (sample_editor\<lparr>document := sample_document\<lparr>languageId := ''Log''\<rparr>\<rparr>)"
    by (simp add: sample_log_host_def sample_host_def)
  have lang: "languageId (document (sample_editor\<lparr>document := sample_document\<lparr>languageId := ''Log''\<rparr>\<rparr>))
       = ''Log''"
    by simp
  have sel: "activeDebugSession sample_log_host = False" "now sample_log_host = 1000"
    "config sample_log_host = sample_config" "appName sample_log_host = ''Visual Studio Code''"
    by (simp_all add: sample_log_host_def sample_host_def)
  from activity_log [OF ed lang, of sample_modules None]
  have "activity sample_modules sample_log_host None
       = Inr (sample_payload\<lparr>largeImageKey := Some ''vscode-big'',
                largeImageText := Some ''Idling''\<rparr>)"
    by (simp add: sel sample_log_details sample_modules_sel sample_payload_def str_defs)
  with ed lang show ?thesis by simp
qed


section \<open>The blocks of fileDetails as replacements\<close>

lemma guarded_replace:
  "(if includes_str s p then replace_str s p v else s) = replace_str s p v"
  by (simp add: replace_str_absent)

lemma replaceTotalLines_eq:
  "replaceTotalLines m doc raw
     = replace_str raw (REPLACE_KEY m TotalLines) (document_toLocaleString doc)"
  by (simp add: replaceTotalLines_def replace_str_absent)

lemma replaceCurrentLine_eq:
  "replaceCurrentLine m h sel raw
     = replace_str raw (REPLACE_KEY m CurrentLine) (toLocaleString h (line (active sel) + 1))"
  by (simp add: replaceCurrentLine_def replace_str_absent)

lemma replaceCurrentColumn_eq:
  "replaceCurrentColumn m h sel raw
     = replace_str raw (REPLACE_KEY m CurrentColumn)
         (toLocaleString h (character (active sel) + 1))"
  by (simp add: replaceCurrentColumn_def replace_str_absent)

lemma replaceFileSize_eq:
  "replaceFileSize m h doc raw = Inr r \<Longrightarrow>
   r = replace_str raw (REPLACE_KEY m FileSize)
         (case fs_stat h (uri doc) of
            Some originalSize \<Rightarrow> file_size_text (FILE_SIZES m) originalSize
          | None \<Rightarrow> [])"
  by (auto simp add: replaceFileSize_def replace_str_absent split: if_splits option.splits)

lemma replaceGitBranch_eq:
  "replaceGitBranch m h raw
     = replace_str raw (REPLACE_KEY m GitBranch)
         (case git_with_repositories h of
            Some g \<Rightarrow> git_branch_text m g
          | None \<Rightarrow> UNKNOWN_GIT_BRANCH m)"
  by (simp add: replaceGitBranch_def replace_str_absent split: option.splits)

lemma replaceGitRepoName_eq:
  "replaceGitRepoName m h raw = Inr r \<Longrightarrow>
   r = replace_str raw (REPLACE_KEY m GitRepoName)
         (case git_with_repositories h of
            Some g \<Rightarrow> (case git_repo_name_text m g of Inr v \<Rightarrow> v | Inl e \<Rightarrow> [])
          | None \<Rightarrow> UNKNOWN_GIT_REPO_NAME m)"
  by (auto simp add: replaceGitRepoName_def replace_str_absent
        split: if_splits option.splits sum.splits)

lemma git_with_repositories_None:
  "git_with_repositories h = None \<longleftrightarrow> git h = None \<or> (\<exists>g. git h = Some g \<and> repositories g = [])"
  by (simp add: git_with_repositories_def split: option.splits)

section \<open>The git placeholders\<close>

lemma fileDetails_git_texts:
  assumes "\<And>r. replaceGitBranch m h r = replace_str r (REPLACE_KEY m GitBranch) b"
    and "\<And>r. replaceGitRepoName m h r = Inr (replace_str r (REPLACE_KEY m GitRepoName) n)"
  shows "fileDetails m h raw doc sel =
     (case replaceFileSize m h doc
             (replaceCurrentColumn m h sel
                (replaceCurrentLine m h sel (replaceTotalLines m doc raw))) of
        Inl e \<Rightarrow> Inl e
      | Inr r \<Rightarrow>
          Inr (replace_str (replace_str r (REPLACE_KEY m GitBranch) b)
                 (REPLACE_KEY m GitRepoName) n))"
  by (simp add: fileDetails_def assms cong: sum.case_cong)

text \<open>
  C3, as the code has it. When the git extension is missing or lists no repository,
  \<open>fileDetails\<close> replaces the git-branch token by \<open>UNKNOWN_GIT_BRANCH\<close> and the
  git-repo-name token by \<open>UNKNOWN_GIT_REPO_NAME\<close>, and the git part of the call cannot
  fail: the outcome is the one of the first four blocks with the two replacements made.
  When repositories are listed and none of them is selected, \<open>find\<close> delivers
  \<open>undefined\<close> and \<open>?? EMPTY\<close> puts the empty-value text in the place of both tokens.
\<close>

theorem fileDetails_no_git:
  "(git h = None \<or> (\<exists>g. git h = Some g \<and> repositories g = []) \<longrightarrow>
      fileDetails m h raw doc sel =
        (case replaceFileSize m h doc
                (replaceCurrentColumn m h sel
                   (replaceCurrentLine m h sel (replaceTotalLines m doc raw))) of
           Inl e \<Rightarrow> Inl e
         | Inr r \<Rightarrow>
             Inr (replace_str
                    (replace_str r (REPLACE_KEY m GitBranch) (UNKNOWN_GIT_BRANCH m))
                    (REPLACE_KEY m GitRepoName) (UNKNOWN_GIT_REPO_NAME m))))
   \<and> ((\<exists>g. git h = Some g \<and> repositories g \<noteq> [] \<and> selected_repository g = None) \<longrightarrow>
      fileDetails m h raw doc sel =
        (case replaceFileSize m h doc
                (replaceCurrentColumn m h sel
                   (replaceCurrentLine m h sel (replaceTotalLines m doc raw))) of
           Inl e \<Rightarrow> Inl e
         | Inr r \<Rightarrow>
             Inr (replace_str
                    (replace_str r (REPLACE_KEY m GitBranch) (EMPTY m))
                    (REPLACE_KEY m GitRepoName) (EMPTY m))))"
proof (intro conjI impI)
  assume "git h = None \<or> (\<exists>g. git h = Some g \<and> repositories g = [])"
  then have none: "git_with_repositories h = None"
    by (simp only: git_with_repositories_None)
  show "fileDetails m h raw doc sel =
        (case replaceFileSize m h doc
                (replaceCurrentColumn m h sel
                   (replaceCurrentLine m h sel (replaceTotalLines m doc raw))) of
           Inl e \<Rightarrow> Inl e
         | Inr r \<Rightarrow>
             Inr (replace_str
                    (replace_str r (REPLACE_KEY m GitBranch) (UNKNOWN_GIT_BRANCH m))
                    (REPLACE_KEY m GitRepoName) (UNKNOWN_GIT_REPO_NAME m)))"
  proof (rule fileDetails_git_texts)
    show "replaceGitBranch m h r
        = replace_str r (REPLACE_KEY m GitBranch) (UNKNOWN_GIT_BRANCH m)" for r
      by (simp add: replaceGitBranch_eq none)
    show "replaceGitRepoName m h r
        = Inr (replace_str r (REPLACE_KEY m GitRepoName) (UNKNOWN_GIT_REPO_NAME m))" for r
      by (simp add: replaceGitRepoName_def none replace_str_absent)
  qed
next
  assume "\<exists>g. git h = Some g \<and> repositories g \<noteq> [] \<and> selected_repository g = None"
  then obtain g where some: "git_with_repositories h = Some g"
    and unselected: "selected_repository g = None"
    by (auto simp add: git_with_repositories_def)
  show "fileDetails m h raw doc sel =
        (case replaceFileSize m h doc
                (replaceCurrentColumn m h sel
                   (replaceCurrentLine m h sel (replaceTotalLines m doc raw))) of
           Inl e \<Rightarrow> Inl e
         | Inr r \<Rightarrow>
             Inr (replace_str
                    (replace_str r (REPLACE_KEY m GitBranch) (EMPTY m))
                    (REPLACE_KEY m GitRepoName) (EMPTY m)))"
  proof (rule fileDetails_git_texts)
    show "replaceGitBranch m h r = replace_str r (REPLACE_KEY m GitBranch) (EMPTY m)" for r
      by (simp add: replaceGitBranch_eq some git_branch_text_def unselected)
    show "replaceGitRepoName m h r
        = Inr (replace_str r (REPLACE_KEY m GitRepoName) (EMPTY m))" for r
      by (simp add: replaceGitRepoName_def some git_repo_name_text_def unselected
            replace_str_absent)
  qed
qed

theorem fileDetails_no_git_witness:
  "fileDetails sample_modules sample_host ''{git_branch}/{git_repo_name}'' sample_document
     sample_selection = Inr ''Unknown/Unknown''"
proof -
  have none: "git sample_host = None \<or> (\<exists>g. git sample_host = Some g \<and> repositories g = [])"
    by (simp add: sample_host_def)
  from fileDetails_no_git [of sample_host sample_modules "''{git_branch}/{git_repo_name}''"
      sample_document sample_selection] none
  have "fileDetails sample_modules sample_host ''{git_branch}/{git_repo_name}'' sample_document
      sample_selection =
        (case replaceFileSize sample_modules sample_host sample_document
                (replaceCurrentColumn sample_modules sample_host sample_selection
                   (replaceCurrentLine sample_modules sample_host sample_selection
                      (replaceTotalLines sample_modules sample_document
                         ''{git_branch}/{git_repo_name}''))) of
           Inl e \<Rightarrow> Inl e
         | Inr r \<Rightarrow>
             Inr (replace_str
                    (replace_str r (REPLACE_KEY sample_modules GitBranch)
                       (UNKNOWN_GIT_BRANCH sample_modules))
                    (REPLACE_KEY sample_modules GitRepoName)
                    (UNKNOWN_GIT_REPO_NAME sample_modules)))"
    by blast
  then show ?thesis
    by (simp add: replaceTotalLines_def replaceCurrentLine_def replaceCurrentColumn_def
          replaceFileSize_def sample_modules_sel str_defs)
qed

text \<open>
  The claim has the \<open>unknown\<close> sentinels also where repositories are listed and none
  of them is selected. With the sample names, where the empty-value text is two blanks,
  the tokens become blanks there.
\<close>

theorem fileDetails_unselected_counterexample:
  "git sample_unselected_host = Some sample_unselected_git
   \<and> selected_repository sample_unselected_git = None
   \<and> fileDetails sample_modules sample_unselected_host ''{git_branch}/{git_repo_name}''
        sample_document sample_selection = Inr ''  /  ''
   \<and> fileDetails sample_modules sample_unselected_host ''{git_branch}/{git_repo_name}''
        sample_document sample_selection \<noteq> Inr ''Unknown/Unknown''"
  by (simp add: sample_unselected_host_def sample_unselected_git_def selected_repository_def
        fileDetails_def block_defs git_with_repositories_def git_branch_text_def
        git_repo_name_text_def sample_modules_sel str_defs)

section \<open>The total-lines placeholder\<close>

text \<open>
  The document enters the replacement of the total-lines token only through
  \<open>document.toLocaleString()\<close>: the line count is never read.
\<close>

lemma fileDetails_lineCount:
  "fileDetails m h raw (doc\<lparr>lineCount := n\<rparr>) sel = fileDetails m h raw doc sel"
proof -
  have "replaceTotalLines m (doc\<lparr>lineCount := n\<rparr>) = replaceTotalLines m doc"
    by (simp add: fun_eq_iff replaceTotalLines_def document_toLocaleString_def)
  moreover have "replaceFileSize m h (doc\<lparr>lineCount := n\<rparr>) = replaceFileSize m h doc"
    by (simp add: fun_eq_iff replaceFileSize_def)
  ultimately show ?thesis by (simp only: fileDetails_def)
qed

text \<open>
  C6. For the sample document of 42 lines the total-lines token is replaced by
  \<open>[object Object]\<close>, not by \<open>42\<close>.
\<close>

theorem fileDetails_total_lines_object:
  "lineCount sample_document = 42
   \<and> fileDetails sample_modules sample_host ''{total_lines} lines'' sample_document
        sample_selection = Inr ''[object Object] lines''"
  by (simp add: sample_document_def fileDetails_def block_defs sample_modules_sel str_defs
        document_toLocaleString_def)

section \<open>What fileDetails replaces\<close>

text \<open>
  C5, as the code has it. When \<open>fileDetails\<close> returns, the result is the template after
  six replacements, one for each scanned token, in the order total lines, current line,
  current column, file size, git branch, git repository name. Each replacement is a
  \<open>String.prototype.replace\<close> with a string pattern: it replaces the first occurrence
  of its token (\<open>replace_str_first\<close>) and leaves a text without the token as it is
  (\<open>replace_str_absent\<close>). The values of the file size and of the repository name are
  only computed when their token is there; where they are not, the text written for
  them below is never inserted.
\<close>

theorem fileDetails_first_occurrence:
  assumes "fileDetails m h raw doc sel = Inr r"
  shows "r =
     replace_str
      (replace_str
        (replace_str
          (replace_str
            (replace_str
              (replace_str raw (REPLACE_KEY m TotalLines) (document_toLocaleString doc))
              (REPLACE_KEY m CurrentLine) (toLocaleString h (line (active sel) + 1)))
            (REPLACE_KEY m CurrentColumn) (toLocaleString h (character (active sel) + 1)))
          (REPLACE_KEY m FileSize)
          (case fs_stat h (uri doc) of
             Some originalSize \<Rightarrow> file_size_text (FILE_SIZES m) originalSize
           | None \<Rightarrow> []))
        (REPLACE_KEY m GitBranch)
        (case git_with_repositories h of
           Some g \<Rightarrow> git_branch_text m g
         | None \<Rightarrow> UNKNOWN_GIT_BRANCH m))
      (REPLACE_KEY m GitRepoName)
      (case git_with_repositories h of
         Some g \<Rightarrow> (case git_repo_name_text m g of Inr v \<Rightarrow> v | Inl e \<Rightarrow> [])
       | None \<Rightarrow> UNKNOWN_GIT_REPO_NAME m)"
proof -
  let ?r3 = "replaceCurrentColumn m h sel
      (replaceCurrentLine m h sel (replaceTotalLines m doc raw))"
  from assms obtain r4 where
    size: "replaceFileSize m h doc ?r3 = Inr r4" and
    repo: "replaceGitRepoName m h (replaceGitBranch m h r4) = Inr r"
    by (auto simp add: fileDetails_def split: sum.splits)
  show ?thesis
    using replaceGitRepoName_eq [OF repo] replaceFileSize_eq [OF size]
    by (simp only: replaceGitBranch_eq replaceCurrentColumn_eq replaceCurrentLine_eq
          replaceTotalLines_eq)
qed

theorem fileDetails_first_occurrence_witness:
  "fileDetails sample_modules sample_host ''{current_line}:{current_column} {current_line}''
     sample_document sample_selection = Inr ''7:3 {current_line}''
   \<and> ''7:3 {current_line}'' =
     replace_str
      (replace_str
        (replace_str
          (replace_str
            (replace_str
              (replace_str ''{current_line}:{current_column} {current_line}''
                (REPLACE_KEY sample_modules TotalLines)
                (document_toLocaleString sample_document))
              (REPLACE_KEY sample_modules CurrentLine)
              (toLocaleString sample_host (line (active sample_selection) + 1)))
            (REPLACE_KEY sample_modules CurrentColumn)
            (toLocaleString sample_host (character (active sample_selection) + 1)))
          (REPLACE_KEY sample_modules FileSize)
          (case fs_stat sample_host (uri sample_document) of
             Some originalSize \<Rightarrow> file_size_text (FILE_SIZES sample_modules) originalSize
           | None \<Rightarrow> []))
        (REPLACE_KEY sample_modules GitBranch)
        (case git_with_repositories sample_host of
           Some g \<Rightarrow> git_branch_text sample_modules g
         | None \<Rightarrow> UNKNOWN_GIT_BRANCH sample_modules))
      (REPLACE_KEY sample_modules GitRepoName)
      (case git_with_repositories sample_host of
         Some g \<Rightarrow> (case git_repo_name_text sample_modules g of Inr v \<Rightarrow> v | Inl e \<Rightarrow> [])
       | None \<Rightarrow> UNKNOWN_GIT_REPO_NAME sample_modules)"
proof -
  have run: "fileDetails sample_modules sample_host
      ''{current_line}:{current_column} {current_line}'' sample_document sample_selection
      = Inr ''7:3 {current_line}''"
    by (simp add: fileDetails_def block_defs sample_defs str_defs decimal.simps
          digit_char_def)
  show ?thesis
    by (rule conjI [OF run fileDetails_first_occurrence [OF run]])
qed

text \<open>
  A template with the same token twice: the second occurrence stays in the result.
\<close>

theorem fileDetails_repeated_token_counterexample:
  "fileDetails sample_modules sample_host ''{current_line}:{current_line}'' sample_document
     sample_selection = Inr ''7:{current_line}''
   \<and> fileDetails sample_modules sample_host ''{current_line}:{current_line}'' sample_document
       sample_selection \<noteq> Inr ''7:7''"
  by (simp add: fileDetails_def block_defs sample_defs str_defs decimal.simps digit_char_def)

section \<open>When the call returns\<close>

lemma split_from_length: "length (split_from [c] cur s) = Suc (count_list s c)"
  by (induction s arbitrary: cur) (simp_all add: is_prefix_def)

lemma split_str_slash: "CHR ''/'' \<in> set url \<Longrightarrow> 1 < length (split_str url ''/'')"
  using count_list_0_iff [of url "CHR ''/''"]
  by (simp add: split_str_def split_from_length)

lemma git_repo_name_text_returns:
  assumes "\<forall>repo. selected_repository g = Some repo \<longrightarrow>
      state_remotes repo \<noteq> []
      \<and> (\<forall>url. fetchUrl (hd (state_remotes repo)) = Some url \<longrightarrow> CHR ''/'' \<in> set url)"
  shows "\<exists>v. git_repo_name_text m g = Inr v"
proof (cases "selected_repository g")
  case None
  then show ?thesis by (simp add: git_repo_name_text_def)
next
  case (Some repo)
  with assms obtain remote rest where remotes: "state_remotes repo = remote # rest"
    and url: "\<forall>url. fetchUrl remote = Some url \<longrightarrow> CHR ''/'' \<in> set url"
    by (cases "state_remotes repo") auto
  show ?thesis
  proof (cases "fetchUrl remote")
    case None
    then show ?thesis by (simp add: git_repo_name_text_def Some remotes)
  next
    case (Some u)
    with url have "CHR ''/'' \<in> set u" by simp
    then have "1 < length (split_str u ''/'')" by (rule split_str_slash)
    then show ?thesis
      using Some by (simp add: git_repo_name_text_def \<open>selected_repository g = Some repo\<close> remotes)
  qed
qed

lemma fileDetails_returns:
  assumes stat: "fs_stat h (uri doc) \<noteq> None"
    and remotes: "\<forall>g repo. git h = Some g \<and> selected_repository g = Some repo \<longrightarrow>
      state_remotes repo \<noteq> []
      \<and> (\<forall>url. fetchUrl (hd (state_remotes repo)) = Some url \<longrightarrow> CHR ''/'' \<in> set url)"
  shows "\<exists>r. fileDetails m h raw doc sel = Inr r"
proof -
  have size: "\<exists>r. replaceFileSize m h doc t = Inr r" for t
    using stat by (auto simp add: replaceFileSize_def)
  have repo: "\<exists>r. replaceGitRepoName m h t = Inr r" for t
  proof (cases "git_with_repositories h")
    case None
    then show ?thesis by (simp add: replaceGitRepoName_def)
  next
    case (Some g)
    then have "git h = Some g"
      by (simp add: git_with_repositories_def split: option.splits if_splits)
    with remotes have "\<exists>v. git_repo_name_text m g = Inr v"
      by (intro git_repo_name_text_returns) simp
    then show ?thesis using Some by (auto simp add: replaceGitRepoName_def)
  qed
  obtain r4 where "replaceFileSize m h doc
      (replaceCurrentColumn m h sel (replaceCurrentLine m h sel (replaceTotalLines m doc raw)))
      = Inr r4"
    using size by blast
  then show ?thesis using repo [of "replaceGitBranch m h r4"] by (simp add: fileDetails_def)
qed

lemma details_returns:
  assumes stat: "\<forall>editor. activeTextEditor h = Some editor \<longrightarrow>
      fs_stat h (uri (document editor)) \<noteq> None"
    and remotes: "\<forall>g repo. git h = Some g \<and> selected_repository g = Some repo \<longrightarrow>
      state_remotes repo \<noteq> []
      \<and> (\<forall>url. fetchUrl (hd (state_remotes repo)) = Some url \<longrightarrow> CHR ''/'' \<in> set url)"
  shows "\<exists>r. details m h idling editing debugging = Inr r"
proof (cases "activeTextEditor h")
  case None
  then show ?thesis by (simp add: details_def)
next
  case (Some editor)
  with stat have "fs_stat h (uri (document editor)) \<noteq> None" by simp
  from fileDetails_returns [OF this remotes]
  have "\<exists>r. fileDetails m h t (document editor) (selection editor) = Inr r" for t by simp
  then show ?thesis
    using Some by (simp add: details_def Let_def split: sum.splits) (metis sum.distinct(1) sum.exhaust)
qed

text \<open>
  Where the fallbacks do hold: \<open>activity\<close> returns a payload whenever the \<open>stat\<close> of the
  open document, if there is one, succeeds, and the selected repository of git, if
  there is one, has a first remote whose fetch URL, when set, contains a \<open>/\<close>. No
  editor, no workspace, no git, no repository, none selected, no \<open>HEAD\<close> and no URL
  are all absorbed.
\<close>

lemma activity_returns:
  assumes "\<forall>editor. activeTextEditor h = Some editor \<longrightarrow>
      fs_stat h (uri (document editor)) \<noteq> None"
    and "\<forall>g repo. git h = Some g \<and> selected_repository g = Some repo \<longrightarrow>
      state_remotes repo \<noteq> []
      \<and> (\<forall>url. fetchUrl (hd (state_remotes repo)) = Some url \<longrightarrow> CHR ''/'' \<in> set url)"
  shows "\<exists>p. activity m h previous_arg = Inr p"
proof -
  obtain d where d: "details m h DetailsIdling DetailsEditing DetailsDebugging = Inr d"
    using details_returns [OF assms] by blast
  obtain s where s: "details m h LowerDetailsIdling LowerDetailsEditing LowerDetailsDebugging = Inr s"
    using details_returns [OF assms] by blast
  show ?thesis
    by (simp add: activity_def d s Let_def split: option.splits)
qed

lemma sample_scale: "scale (to_double 1500) (Suc 0) = (3 / 2, 2)"
  by code_simp

lemma sample_toFixed2: "toFixed2 (3 / 2) = ''1.50''"
  by code_simp

lemma sample_file_size:
  "file_size_text ['' bytes'', ''kb'', ''mb'', ''gb'', ''tb''] 1500000 = ''1.50mb''"
  by (simp add: file_size_text_def sample_scale sample_toFixed2 index_text_def)

lemma sample_git_details:
  "details sample_modules sample_git_host LowerDetailsIdling LowerDetailsEditing
     LowerDetailsDebugging = Inr ''proj on main, 1.50mb''"
  by (simp add: sample_git_host_def sample_git_def details_def fileDetails_def block_defs
        git_with_repositories_def git_branch_text_def git_repo_name_text_def
        selected_repository_def sample_defs str_defs index_text_def sample_file_size)

lemma sample_git_activity_returns:
  "(\<exists>p. activity sample_modules sample_git_host None = Inr p)
   \<and> details sample_modules sample_git_host LowerDetailsIdling LowerDetailsEditing
       LowerDetailsDebugging = Inr ''proj on main, 1.50mb''"
proof -
  have stat: "\<forall>editor. activeTextEditor sample_git_host = Some editor \<longrightarrow>
      fs_stat sample_git_host (uri (document editor)) \<noteq> None"
    by (simp add: sample_git_host_def sample_host_def)
  have remotes: "\<forall>g repo. git sample_git_host = Some g \<and> selected_repository g = Some repo \<longrightarrow>
      state_remotes repo \<noteq> []
      \<and> (\<forall>url. fetchUrl (hd (state_remotes repo)) = Some url \<longrightarrow> CHR ''/'' \<in> set url)"
    by (auto simp add: sample_git_host_def sample_host_def sample_git_def selected_repository_def)
  show ?thesis
    by (intro conjI activity_returns [OF stat remotes] sample_git_details)
qed

text \<open>
  A rejected \<open>workspace.fs.stat\<close>, as for a document that is not on disk, is not
  absorbed when a template asks for the file size: the promise is awaited without a
  handler and the rejection leaves \<open>activity\<close>, as section 7 of the spec has it.
\<close>

lemma activity_stat_rejected:
  "activity sample_modules sample_unsaved_host None = Inl StatRejected"
proof -
  have "details sample_modules sample_unsaved_host DetailsIdling DetailsEditing DetailsDebugging
      = Inl StatRejected"
    by (simp add: sample_unsaved_host_def details_def fileDetails_def block_defs sample_defs
          str_defs index_text_def)
  then show ?thesis by (simp add: activity_def)
qed

text \<open>
  The repository name of a selected repository without remotes: line 192 reads
  \<open>remotes[0].fetchUrl\<close> with no \<open>?.\<close> after \<open>remotes[0]\<close>, while the repository before
  it and the URL after it are guarded and \<open>?? EMPTY\<close> stands ready at the end.
\<close>

lemma git_repo_name_text_no_remotes:
  "selected_repository g = Some repo \<Longrightarrow> state_remotes repo = [] \<Longrightarrow>
   git_repo_name_text m g = Inl TypeError"
  by (simp add: git_repo_name_text_def)

lemma replaceGitRepoName_no_remotes:
  assumes "git h = Some g" and "selected_repository g = Some repo"
    and "state_remotes repo = []" and "includes_str raw (REPLACE_KEY m GitRepoName)"
  shows "replaceGitRepoName m h raw = Inl TypeError"
proof -
  from assms(2) have "repositories g \<noteq> []"
    by (auto simp add: selected_repository_def)
  with assms(1) have "git_with_repositories h = Some g"
    by (simp add: git_with_repositories_def)
  then show ?thesis
    using assms by (simp add: replaceGitRepoName_def git_repo_name_text_no_remotes)
qed

text \<open>
  C4. The claim: for every configuration and host state, also with a selected git
  repository whose list of remotes is empty, \<open>activity\<close> returns a payload and never
  raises. The code at that input: the sample host with the git extension, one
  repository, selected, without remotes, a \<open>stat\<close> that succeeds and a subtitle template
  that asks for the repository name. The call ends in a \<open>TypeError\<close> and returns no
  payload.
\<close>

theorem activity_no_remotes:
  "git sample_no_remotes_host = Some sample_no_remotes_git
   \<and> selected_repository sample_no_remotes_git
       = Some \<lparr>ui_selected = True, state_HEAD = None, state_remotes = []\<rparr>
   \<and> fs_stat sample_no_remotes_host (uri sample_document) = Some 1500000
   \<and> activity sample_modules sample_no_remotes_host None = Inl TypeError"
proof -
  have "details sample_modules sample_no_remotes_host DetailsIdling DetailsEditing
      DetailsDebugging = Inr ''Editing main.ts''"
    by (simp add: sample_no_remotes_host_def details_def fileDetails_def block_defs sample_defs
          str_defs index_text_def)
  moreover have "details sample_modules sample_no_remotes_host LowerDetailsIdling
      LowerDetailsEditing LowerDetailsDebugging = Inl TypeError"
    by (simp add: sample_no_remotes_host_def sample_no_remotes_git_def details_def
          fileDetails_def block_defs sample_defs git_with_repositories_def
          git_repo_name_text_def selected_repository_def str_defs index_text_def)
  ultimately have "activity sample_modules sample_no_remotes_host None = Inl TypeError"
    by (simp add: activity_def)
  then show ?thesis
    by (simp add: sample_no_remotes_host_def sample_no_remotes_git_def sample_host_def
          selected_repository_def)
qed

section \<open>The file size\<close>

lemma scale_funpow:
  "scale x c = (v, k) \<Longrightarrow>
   \<exists>n. k = c + n \<and> v = ((\<lambda>y. to_double (y / 1000)) ^^ n) x \<and> v \<le> 1000
       \<and> (\<forall>j<n. 1000 < ((\<lambda>y. to_double (y / 1000)) ^^ j) x)"
proof (induction x c arbitrary: v k rule: scale.induct)
  case (1 sz c)
  let ?D = "\<lambda>y. to_double (y / 1000)"
  show ?case
  proof (cases "1000 < sz")
    case True
    with "1.prems" have "scale (?D sz) (c + 1) = (v, k)"
      by (simp add: scale.simps [of sz c])
    from "1.IH" [OF True this] obtain n where
      k: "k = c + 1 + n" and v: "v = (?D ^^ n) (?D sz)" and le: "v \<le> 1000"
      and above: "\<forall>j<n. 1000 < (?D ^^ j) (?D sz)"
      by blast
    have "\<forall>j<Suc n. 1000 < (?D ^^ j) sz"
    proof (intro allI impI)
      fix j assume "j < Suc n"
      show "1000 < (?D ^^ j) sz"
      proof (cases j)
        case 0
        then show ?thesis using True by simp
      next
        case (Suc i)
        with \<open>j < Suc n\<close> have "i < n" by simp
        with above have "1000 < (?D ^^ i) (?D sz)" by blast
        then show ?thesis using Suc by (simp only: funpow_Suc_right o_apply)
      qed
    qed
    moreover have "v = (?D ^^ Suc n) sz" using v by (simp only: funpow_Suc_right o_apply)
    moreover have "k = c + Suc n" using k by simp
    ultimately show ?thesis using le by blast
  next
    case False
    with "1.prems" have "v = sz" and "k = c" by (simp_all add: scale.simps [of sz c])
    then show ?thesis using False by (intro exI [of _ 0]) simp
  qed
qed

lemma digit_char_digit: "digit_char d \<in> set ''0123456789''"
  by (simp add: digit_char_def)

lemma decimal_digits: "set (decimal n) \<subseteq> set ''0123456789''"
proof (induction n rule: decimal.induct)
  case (1 n)
  show ?case
  proof (cases "n < 10")
    case True
    then have "decimal n = [digit_char n]" by (simp add: decimal.simps [of n])
    then show ?thesis using digit_char_digit [of n] by simp
  next
    case False
    then have "decimal n = decimal (n div 10) @ [digit_char (n mod 10)]"
      by (simp add: decimal.simps [of n])
    then show ?thesis using "1.IH" [OF False] digit_char_digit [of "n mod 10"] by simp
  qed
qed

lemma toFixed2_shape:
  assumes "0 \<le> x"
  shows "\<exists>ds a b. toFixed2 x = ds @ ''.'' @ [a, b] \<and> ds \<noteq> []
           \<and> set (ds @ [a, b]) \<subseteq> set ''0123456789''"
proof -
  define m where "m = replicate (3 - length (decimal (nat \<lfloor>\<bar>x\<bar> * 100 + 1 / 2\<rfloor>))) CHR ''0''
      @ decimal (nat \<lfloor>\<bar>x\<bar> * 100 + 1 / 2\<rfloor>)"
  have len: "3 \<le> length m" by (simp add: m_def)
  have digits: "set m \<subseteq> set ''0123456789''"
    using decimal_digits [of "nat \<lfloor>\<bar>x\<bar> * 100 + 1 / 2\<rfloor>"] by (auto simp add: m_def)
  have fixed: "toFixed2 x = take (length m - 2) m @ ''.'' @ drop (length m - 2) m"
    using assms by (simp add: toFixed2_def Let_def m_def)
  have "length (drop (length m - 2) m) = 2" using len by simp
  then obtain a b where ab: "drop (length m - 2) m = [a, b]"
    by (cases "drop (length m - 2) m" rule: list.exhaust)
      (auto simp add: length_Suc_conv)
  have "take (length m - 2) m \<noteq> []" using len by auto
  moreover have "set (take (length m - 2) m @ [a, b]) \<subseteq> set ''0123456789''"
    using digits ab [symmetric] by (simp only: append_take_drop_id)
  moreover have "toFixed2 x = take (length m - 2) m @ ''.'' @ [a, b]"
    using fixed ab by simp
  ultimately show ?thesis
    by (intro exI [of _ "take (length m - 2) m"] exI [of _ a] exI [of _ b] conjI)
qed

lemma funpow_divide_nonneg:
  "0 \<le> x \<Longrightarrow> 0 \<le> ((\<lambda>y. to_double (y / 1000)) ^^ n) x"
  by (induction n) (simp_all add: to_double_nonneg)

lemma file_size_text_small:
  "s \<le> 1000 \<Longrightarrow> file_size_text sizes s = decimal s @ index_text sizes 0"
  by (simp add: file_size_text_def)

lemma file_size_text_large:
  assumes "1000 < s"
  shows "\<exists>k. 1 \<le> k
      \<and> (\<forall>j. 1 \<le> j \<and> j < k \<longrightarrow> 1000 < ((\<lambda>y. to_double (y / 1000)) ^^ j) (of_nat s))
      \<and> ((\<lambda>y. to_double (y / 1000)) ^^ k) (of_nat s) \<le> 1000
      \<and> file_size_text sizes s
          = toFixed2 (((\<lambda>y. to_double (y / 1000)) ^^ k) (of_nat s)) @ index_text sizes k"
proof -
  let ?D = "\<lambda>y. to_double (y / 1000)"
  obtain v k where run: "scale (?D (of_nat s)) 1 = (v, k)" by (cases "scale (?D (of_nat s)) 1")
  from scale_funpow [OF run] obtain n where
    k: "k = 1 + n" and v: "v = (?D ^^ n) (?D (of_nat s))" and le: "v \<le> 1000"
    and above: "\<forall>j<n. 1000 < (?D ^^ j) (?D (of_nat s))"
    by blast
  have v': "v = (?D ^^ k) (of_nat s)"
    using v k by (simp only: funpow_Suc_right o_apply plus_1_eq_Suc)
  have "\<forall>j. 1 \<le> j \<and> j < k \<longrightarrow> 1000 < (?D ^^ j) (of_nat s)"
  proof (intro allI impI)
    fix j assume j: "1 \<le> j \<and> j < k"
    then obtain i where i: "j = Suc i" by (cases j) auto
    with j k have "i < n" by simp
    with above have "1000 < (?D ^^ i) (?D (of_nat s))" by blast
    then show "1000 < (?D ^^ j) (of_nat s)" using i by (simp only: funpow_Suc_right o_apply)
  qed
  moreover have "file_size_text sizes s = toFixed2 v @ index_text sizes k"
    using assms run by (simp add: file_size_text_def)
  ultimately show ?thesis using k le v' by (intro exI [of _ k]) simp
qed

text \<open>
  C2. In a template with the file-size token, for a file of \<open>s\<close> bytes, the block of
  lines 156 to 173 replaces the token by a number and the unit \<open>FILE_SIZES[k]\<close>, where
  \<open>k\<close> counts the divisions by 1000. For \<open>s \<le> 1000\<close> nothing is divided: the number
  is \<open>s\<close> in decimal, the unit the first one. For \<open>1000 < s\<close> the size is divided once
  and then again while the quotient exceeds 1000: \<open>k\<close> is the first count from 1 on at
  which the quotient is at most 1000, and the number is that quotient printed by
  \<open>toFixed(2)\<close>, digits, a point and exactly two digits. Every quotient is the
  double that the division of the language delivers.
\<close>

theorem replaceFileSize_format:
  assumes "includes_str raw (REPLACE_KEY m FileSize)" and "fs_stat h (uri doc) = Some s"
  shows "\<exists>k v. replaceFileSize m h doc raw
             = Inr (replace_str raw (REPLACE_KEY m FileSize) (v @ index_text (FILE_SIZES m) k))
     \<and> (s \<le> 1000 \<longrightarrow> k = 0 \<and> v = decimal s)
     \<and> (1000 < s \<longrightarrow>
          1 \<le> k
          \<and> (\<forall>j. 1 \<le> j \<and> j < k \<longrightarrow> 1000 < ((\<lambda>y. to_double (y / 1000)) ^^ j) (of_nat s))
          \<and> ((\<lambda>y. to_double (y / 1000)) ^^ k) (of_nat s) \<le> 1000
          \<and> v = toFixed2 (((\<lambda>y. to_double (y / 1000)) ^^ k) (of_nat s))
          \<and> (\<exists>ds a b. v = ds @ ''.'' @ [a, b] \<and> ds \<noteq> []
                \<and> set (ds @ [a, b]) \<subseteq> set ''0123456789''))"
proof (cases "1000 < s")
  case False
  then have "file_size_text (FILE_SIZES m) s = decimal s @ index_text (FILE_SIZES m) 0"
    by (simp add: file_size_text_small)
  then have "replaceFileSize m h doc raw
      = Inr (replace_str raw (REPLACE_KEY m FileSize) (decimal s @ index_text (FILE_SIZES m) 0))"
    using assms by (simp add: replaceFileSize_def)
  then show ?thesis using False by (intro exI [of _ 0] exI [of _ "decimal s"]) simp
next
  case True
  let ?D = "\<lambda>y. to_double (y / 1000)"
  from file_size_text_large [OF True, of "FILE_SIZES m"] obtain k where
    k: "1 \<le> k" and above: "\<forall>j. 1 \<le> j \<and> j < k \<longrightarrow> 1000 < (?D ^^ j) (of_nat s)"
    and le: "(?D ^^ k) (of_nat s) \<le> 1000"
    and fmt: "file_size_text (FILE_SIZES m) s
          = toFixed2 ((?D ^^ k) (of_nat s)) @ index_text (FILE_SIZES m) k"
    by blast
  have "0 \<le> (?D ^^ k) (of_nat s)" by (rule funpow_divide_nonneg) simp
  from toFixed2_shape [OF this] have shape:
    "\<exists>ds a b. toFixed2 ((?D ^^ k) (of_nat s)) = ds @ ''.'' @ [a, b] \<and> ds \<noteq> []
        \<and> set (ds @ [a, b]) \<subseteq> set ''0123456789''" .
  have "replaceFileSize m h doc raw
      = Inr (replace_str raw (REPLACE_KEY m FileSize)
               (toFixed2 ((?D ^^ k) (of_nat s)) @ index_text (FILE_SIZES m) k))"
    using assms fmt by (simp add: replaceFileSize_def)
  then show ?thesis
    using True k above le shape
    by (intro exI [of _ k] exI [of _ "toFixed2 ((?D ^^ k) (of_nat s))"]) simp
qed


text \<open>
  The examples of the spec with the sample units: 500 bytes, 1,500,000 bytes, and
  1,000,000 bytes, a quotient that does not exceed 1000 and is divided no further.
\<close>

lemma sample_file_size_500:
  "file_size_text ['' bytes'', ''kb'', ''mb'', ''gb'', ''tb''] 500 = ''500 bytes''"
  by (simp add: file_size_text_def index_text_def decimal.simps digit_char_def)

lemma to_double_1000: "to_double 1000 = 1000"
  by code_simp

lemma sample_scale_1000: "scale (to_double 1000) (Suc 0) = (1000, 1)"
  by (simp add: to_double_1000 scale.simps)

lemma sample_toFixed2_1000: "toFixed2 1000 = ''1000.00''"
proof -
  have "\<lfloor>200001 / 2 :: rat\<rfloor> = 100000" by (simp add: floor_eq_iff)
  then show ?thesis by (simp add: toFixed2_def Let_def decimal.simps digit_char_def)
qed

lemma sample_file_size_1000000:
  "file_size_text ['' bytes'', ''kb'', ''mb'', ''gb'', ''tb''] 1000000 = ''1000.00kb''"
  by (simp add: file_size_text_def sample_scale_1000 sample_toFixed2_1000 index_text_def)

theorem replaceFileSize_format_witness:
  "replaceFileSize sample_modules sample_host sample_document ''{file_size}'' = Inr ''1.50mb''
   \<and> fileDetails sample_modules sample_host ''{file_size}'' sample_document sample_selection
       = Inr ''1.50mb''
   \<and> (\<exists>k v. replaceFileSize sample_modules sample_host sample_document ''{file_size}''
             = Inr (replace_str ''{file_size}'' (REPLACE_KEY sample_modules FileSize)
                      (v @ index_text (FILE_SIZES sample_modules) k))
          \<and> 1 \<le> k
          \<and> ((\<lambda>y. to_double (y / 1000)) ^^ k) 1500000 \<le> 1000
          \<and> v = toFixed2 (((\<lambda>y. to_double (y / 1000)) ^^ k) 1500000)
          \<and> (\<exists>ds a b. v = ds @ ''.'' @ [a, b] \<and> ds \<noteq> []
                \<and> set (ds @ [a, b]) \<subseteq> set ''0123456789''))"
proof -
  have token: "includes_str ''{file_size}'' (REPLACE_KEY sample_modules FileSize)"
    by (simp add: sample_modules_def is_prefix_def)
  have stat: "fs_stat sample_host (uri sample_document) = Some 1500000"
    by (simp add: sample_host_def)
  have run: "replaceFileSize sample_modules sample_host sample_document ''{file_size}''
      = Inr ''1.50mb''"
    by (simp add: replaceFileSize_def sample_host_def sample_modules_def str_defs
          sample_file_size)
  have big: "(1000::nat) < 1500000" by simp
  note inst = replaceFileSize_format [OF token stat, unfolded of_nat_numeral]
  from inst big have "\<exists>k v. replaceFileSize sample_modules sample_host sample_document ''{file_size}''
             = Inr (replace_str ''{file_size}'' (REPLACE_KEY sample_modules FileSize)
                      (v @ index_text (FILE_SIZES sample_modules) k))
          \<and> 1 \<le> k
          \<and> ((\<lambda>y. to_double (y / 1000)) ^^ k) 1500000 \<le> 1000
          \<and> v = toFixed2 (((\<lambda>y. to_double (y / 1000)) ^^ k) 1500000)
          \<and> (\<exists>ds a b. v = ds @ ''.'' @ [a, b] \<and> ds \<noteq> []
                \<and> set (ds @ [a, b]) \<subseteq> set ''0123456789'')"
    by blast
  moreover have "fileDetails sample_modules sample_host ''{file_size}'' sample_document
      sample_selection = Inr ''1.50mb''"
    by (simp add: fileDetails_def run replaceTotalLines_def replaceCurrentLine_def
          replaceCurrentColumn_def replaceGitBranch_def replaceGitRepoName_def
          sample_modules_sel str_defs)
  ultimately show ?thesis using run by (intro conjI)
qed

end
